theory Spec2Isabelle
  imports Complex_Main
begin

section \<open>Memory and arithmetic of the C program\<close>

text \<open>
  The two functions of \<^verbatim>\<open>pk_formula.c\<close> read and write arrays of \<^verbatim>\<open>double\<close>
  through pointers.  Memory is a store of doubles; an address counts cells of one
  double, \<^verbatim>\<open>a[i]\<close> is the cell \<open>a + i\<close>, and \<^verbatim>\<open>NULL\<close> is the address \<open>0\<close>.
  The store is shared by all pointers, so overlapping arrays are expressible.
\<close>

type_synonym ptr = nat

definition NULL :: ptr where
  "NULL = 0"

text \<open>
  The type \<^verbatim>\<open>double\<close>, its operators and the functions \<^verbatim>\<open>pow\<close> and
  \<^verbatim>\<open>fabs\<close> of \<^verbatim>\<open>math.h\<close> are not part of the repository.  The program is
  therefore modelled over any arithmetic \<open>F\<close>: the conversion of an \<^verbatim>\<open>int\<close>, the
  value of a decimal literal, the four operators used, \<^verbatim>\<open>pow\<close>, \<^verbatim>\<open>fabs\<close> and
  the comparison \<^verbatim>\<open><\<close>.
\<close>

record 'd fpu =
  of_int_d :: "int \<Rightarrow> 'd"
  lit :: "real \<Rightarrow> 'd"
  add_d :: "'d \<Rightarrow> 'd \<Rightarrow> 'd"
  sub_d :: "'d \<Rightarrow> 'd \<Rightarrow> 'd"
  mul_d :: "'d \<Rightarrow> 'd \<Rightarrow> 'd"
  div_d :: "'d \<Rightarrow> 'd \<Rightarrow> 'd"
  pow_d :: "'d \<Rightarrow> 'd \<Rightarrow> 'd"
  fabs_d :: "'d \<Rightarrow> 'd"
  lt_d :: "'d \<Rightarrow> 'd \<Rightarrow> bool"

text \<open>
  What a call leaves behind: the returned \<^verbatim>\<open>int\<close>, the store, and the lines
  printed on \<^verbatim>\<open>stderr\<close>.
\<close>

record 'd outcome =
  ret :: int
  mem :: "nat \<Rightarrow> 'd"
  err_lines :: "string list"

section \<open>The solver\<close>

text \<open>
  The loop \<^verbatim>\<open>for (int i = 1; i < n; i++) x[i] = pow(k / a[i], 1.0/p[i]);\<close>
  with the loop variable and the store as its state.  The counter is a mathematical
  integer: it runs from \<open>1\<close> to \<open>n\<close>, and \<open>n\<close> is an \<^verbatim>\<open>int\<close>, so \<^verbatim>\<open>i++\<close>
  never overflows.
\<close>

function pk_loop :: "'d fpu \<Rightarrow> ptr \<Rightarrow> ptr \<Rightarrow> 'd \<Rightarrow> int \<Rightarrow> ptr \<Rightarrow> int \<Rightarrow> (nat \<Rightarrow> 'd) \<Rightarrow> (nat \<Rightarrow> 'd)" where
  "pk_loop F a p k n x i h =
     (if i < n
      then pk_loop F a p k n x (i + 1)
             (h(x + nat i := pow_d F (div_d F k (h (a + nat i)))
                                     (div_d F (lit F 1) (h (p + nat i)))))
      else h)"
  by pat_completeness auto
termination
  by (relation "measure (\<lambda>(F, a, p, k, n, x, i, h). nat (n - i))") auto

definition pk_formula :: "'d fpu \<Rightarrow> (nat \<Rightarrow> 'd) \<Rightarrow> ptr \<Rightarrow> ptr \<Rightarrow> 'd \<Rightarrow> 'd \<Rightarrow> int \<Rightarrow> ptr \<Rightarrow> 'd outcome" where
  "pk_formula F h a p b k n x =
     (if n \<le> 0
      then \<lparr>ret = - 1, mem = h, err_lines = [''Error: n must be positive'']\<rparr>
      else if a = NULL \<or> p = NULL \<or> x = NULL
      then \<lparr>ret = - 1, mem = h, err_lines = [''Error: NULL pointer provided'']\<rparr>
      else
        let h0 = h(x := pow_d F (div_d F (sub_d F b (mul_d F (of_int_d F (n - 1)) k)) (h a))
                                (div_d F (lit F 1) (h p)))
        in \<lparr>ret = 0, mem = pk_loop F a p k n x 1 h0, err_lines = []\<rparr>)"

section \<open>The verifier\<close>

text \<open>
  The loop \<^verbatim>\<open>for (int i = 0; i < n; i++) sum += a[i] * pow(x[i], p[i]);\<close>
  with the loop variable and the running sum as its state.
\<close>

function vs_loop :: "'d fpu \<Rightarrow> (nat \<Rightarrow> 'd) \<Rightarrow> ptr \<Rightarrow> ptr \<Rightarrow> ptr \<Rightarrow> int \<Rightarrow> int \<Rightarrow> 'd \<Rightarrow> 'd" where
  "vs_loop F h x a p n i s =
     (if i < n
      then vs_loop F h x a p n (i + 1)
             (add_d F s (mul_d F (h (a + nat i)) (pow_d F (h (x + nat i)) (h (p + nat i)))))
      else s)"
  by pat_completeness auto
termination
  by (relation "measure (\<lambda>(F, h, x, a, p, n, i, s). nat (n - i))") auto

definition verify_solution :: "'d fpu \<Rightarrow> (nat \<Rightarrow> 'd) \<Rightarrow> ptr \<Rightarrow> ptr \<Rightarrow> ptr \<Rightarrow> 'd \<Rightarrow> int \<Rightarrow> ptr \<Rightarrow> 'd outcome" where
  "verify_solution F h x a p b n error =
     (if x = NULL \<or> a = NULL \<or> p = NULL \<or> error = NULL
      then \<lparr>ret = 0, mem = h, err_lines = [''Error: NULL pointer provided'']\<rparr>
      else
        let sum = vs_loop F h x a p n 0 (lit F 0);
            h' = h(error := fabs_d F (sub_d F sum b))
        in \<lparr>ret = (if lt_d F (h' error) (lit F (1 / 10 ^ 10)) then 1 else 0),
            mem = h', err_lines = []\<rparr>)"

section \<open>IEEE 754 binary64 arithmetic\<close>

text \<open>
  The arithmetic the C program runs on: \<^verbatim>\<open>double\<close> is IEEE 754 binary64 with
  the default rounding (to nearest, ties to even), and \<^verbatim>\<open>pow\<close> follows
  Annex F of the C standard.  A double is a signed finite magnitude (the sign bit is
  \<open>True\<close> for a negative number, so there are two zeros), a signed infinity or a NaN;
  NaN payloads are not distinguished.
\<close>

datatype double = Finite bool real | Infinite bool | NaN

definition pow2 :: "int \<Rightarrow> real" where
  "pow2 e = (if 0 \<le> e then 2 ^ nat e else 1 / 2 ^ nat (- e))"

text \<open>
  The binary exponent of a positive magnitude \<open>m\<close>: the \<open>e\<close> with
  \<open>2^e \<le> m < 2^(e+1)\<close>, found by halving or doubling.  The first argument bounds
  the number of steps; rounding calls it with 1100 steps on magnitudes between
  \<open>2^-1022\<close> and \<open>2^1024\<close>, which need at most 1023.
\<close>

fun expo :: "nat \<Rightarrow> real \<Rightarrow> int" where
  "expo 0 m = 0"
| "expo (Suc f) m =
     (if 2 \<le> m then expo f (m / 2) + 1
      else if m < 1 then expo f (2 * m) - 1
      else 0)"

text \<open>The nearest integer, ties to the even one.\<close>

definition rne :: "real \<Rightarrow> int" where
  "rne q = (let f = \<lfloor>q\<rfloor>; d = q - of_int f
            in if d < 1 / 2 then f
               else if 1 / 2 < d then f + 1
               else if even f then f else f + 1)"

text \<open>
  Rounding an exact magnitude \<open>m \<ge> 0\<close> with sign \<open>s\<close> to binary64: 53 significant
  bits, the smallest exponent \<open>-1022\<close> (below it the spacing stays \<open>2^-1074\<close>, the
  subnormal numbers), and overflow to infinity once the rounded magnitude reaches
  \<open>2^1024\<close>.
\<close>

definition rnd :: "bool \<Rightarrow> real \<Rightarrow> double" where
  "rnd s m =
     (if pow2 1024 \<le> m then Infinite s
      else
        let e = (if m < pow2 (- 1022) then - 1022 else expo 1100 m);
            u = pow2 (e - 52);
            r = of_int (rne (m / u)) * u
        in if pow2 1024 \<le> r then Infinite s else Finite s r)"

definition val :: "bool \<Rightarrow> real \<Rightarrow> real" where
  "val s m = (if s then - m else m)"

text \<open>
  The values of the datatype that are doubles: a finite magnitude is one that
  rounding leaves as it is.
\<close>

definition is_double :: "double \<Rightarrow> bool" where
  "is_double d = (case d of Finite s m \<Rightarrow> 0 \<le> m \<and> rnd s m = Finite s m | _ \<Rightarrow> True)"

definition ieee_of_int :: "int \<Rightarrow> double" where
  "ieee_of_int i = rnd (i < 0) \<bar>of_int i\<bar>"

definition ieee_lit :: "real \<Rightarrow> double" where
  "ieee_lit r = rnd (r < 0) \<bar>r\<bar>"

fun ieee_neg :: "double \<Rightarrow> double" where
  "ieee_neg (Finite s m) = Finite (\<not> s) m"
| "ieee_neg (Infinite s) = Infinite (\<not> s)"
| "ieee_neg NaN = NaN"

text \<open>
  Addition: a NaN operand gives NaN, so do infinities of opposite sign; an exact sum
  of zero is \<open>-0\<close> only when both operands are negative; every other sum is the
  exact sum, rounded.
\<close>

fun ieee_add :: "double \<Rightarrow> double \<Rightarrow> double" where
  "ieee_add NaN y = NaN"
| "ieee_add x NaN = NaN"
| "ieee_add (Infinite s) (Infinite t) = (if s = t then Infinite s else NaN)"
| "ieee_add (Infinite s) (Finite t n) = Infinite s"
| "ieee_add (Finite s m) (Infinite t) = Infinite t"
| "ieee_add (Finite s m) (Finite t n) =
     (let v = val s m + val t n
      in if v = 0 then Finite (s \<and> t) 0 else rnd (v < 0) \<bar>v\<bar>)"

definition ieee_sub :: "double \<Rightarrow> double \<Rightarrow> double" where
  "ieee_sub x y = ieee_add x (ieee_neg y)"

text \<open>Multiplication: zero times infinity is NaN; the sign is the exclusive or.\<close>

fun ieee_mul :: "double \<Rightarrow> double \<Rightarrow> double" where
  "ieee_mul NaN y = NaN"
| "ieee_mul x NaN = NaN"
| "ieee_mul (Infinite s) (Infinite t) = Infinite (s \<noteq> t)"
| "ieee_mul (Infinite s) (Finite t n) = (if n = 0 then NaN else Infinite (s \<noteq> t))"
| "ieee_mul (Finite s m) (Infinite t) = (if m = 0 then NaN else Infinite (s \<noteq> t))"
| "ieee_mul (Finite s m) (Finite t n) = rnd (s \<noteq> t) (m * n)"

text \<open>
  Division: \<open>0/0\<close> and \<open>\<infinity>/\<infinity>\<close> are NaN, a non-zero number divided by zero is
  an infinity, a finite number divided by an infinity is a zero.
\<close>

fun ieee_div :: "double \<Rightarrow> double \<Rightarrow> double" where
  "ieee_div NaN y = NaN"
| "ieee_div x NaN = NaN"
| "ieee_div (Infinite s) (Infinite t) = NaN"
| "ieee_div (Infinite s) (Finite t n) = Infinite (s \<noteq> t)"
| "ieee_div (Finite s m) (Infinite t) = Finite (s \<noteq> t) 0"
| "ieee_div (Finite s m) (Finite t n) =
     (if n = 0 then (if m = 0 then NaN else Infinite (s \<noteq> t))
      else rnd (s \<noteq> t) (m / n))"

fun ieee_fabs :: "double \<Rightarrow> double" where
  "ieee_fabs (Finite s m) = Finite False m"
| "ieee_fabs (Infinite s) = Infinite False"
| "ieee_fabs NaN = NaN"

text \<open>The comparison \<^verbatim>\<open><\<close>: false as soon as an operand is NaN; the two zeros are equal.\<close>

fun ieee_lt :: "double \<Rightarrow> double \<Rightarrow> bool" where
  "ieee_lt NaN y = False"
| "ieee_lt x NaN = False"
| "ieee_lt (Infinite s) (Infinite t) = (s \<and> \<not> t)"
| "ieee_lt (Infinite s) (Finite t n) = s"
| "ieee_lt (Finite s m) (Infinite t) = (\<not> t)"
| "ieee_lt (Finite s m) (Finite t n) = (val s m < val t n)"

definition is_int :: "real \<Rightarrow> bool" where
  "is_int n = (n = of_int \<lfloor>n\<rfloor>)"

definition odd_int :: "real \<Rightarrow> bool" where
  "odd_int n = (is_int n \<and> odd \<lfloor>n\<rfloor>)"

text \<open>
  \<^verbatim>\<open>pow\<close> on the arguments where the C standard (Annex F) fixes the result: a
  zero or infinite base, an infinite exponent, a negative base with a non-integer
  exponent (NaN), a NaN operand.  On the other arguments, a finite non-zero base
  with a finite exponent, the result is the library's approximation of the real power;
  it is the parameter \<open>lp\<close>.
\<close>

fun pow_special :: "(double \<Rightarrow> double \<Rightarrow> double) \<Rightarrow> double \<Rightarrow> double \<Rightarrow> double" where
  "pow_special lp NaN y = NaN"
| "pow_special lp x NaN = NaN"
| "pow_special lp (Finite s m) (Infinite t) =
     (if m = 1 then Finite False 1
      else if (m < 1) = t then Infinite False else Finite False 0)"
| "pow_special lp (Finite s m) (Finite t n) =
     (if m = 0
      then (if t then Infinite (s \<and> odd_int n) else Finite (s \<and> odd_int n) 0)
      else if s \<and> \<not> is_int n then NaN
      else lp (Finite s m) (Finite t n))"
| "pow_special lp (Infinite s) (Infinite t) = (if t then Finite False 0 else Infinite False)"
| "pow_special lp (Infinite s) (Finite t n) =
     (if t then Finite (s \<and> odd_int n) 0 else Infinite (s \<and> odd_int n))"

text \<open>
  \<^verbatim>\<open>pow(+1, y)\<close> and \<^verbatim>\<open>pow(x, \<plusminus>0)\<close> are 1 for every other operand, a NaN
  included; these two rules come first.
\<close>

definition ieee_pow :: "(double \<Rightarrow> double \<Rightarrow> double) \<Rightarrow> double \<Rightarrow> double \<Rightarrow> double" where
  "ieee_pow lp x y =
     (if x = Finite False 1 then Finite False 1
      else if y = Finite False 0 \<or> y = Finite True 0 then Finite False 1
      else pow_special lp x y)"

definition ieee_arith :: "(double \<Rightarrow> double \<Rightarrow> double) \<Rightarrow> double fpu" where
  "ieee_arith lp =
     \<lparr>of_int_d = ieee_of_int, lit = ieee_lit,
      add_d = ieee_add, sub_d = ieee_sub, mul_d = ieee_mul, div_d = ieee_div,
      pow_d = ieee_pow lp, fabs_d = ieee_fabs, lt_d = ieee_lt\<rparr>"

text \<open>Three tests on a double: finite, zero (of either sign), sign bit set.\<close>

definition finite_d :: "double \<Rightarrow> bool" where
  "finite_d d = (case d of Finite s m \<Rightarrow> True | _ \<Rightarrow> False)"

definition zero_d :: "double \<Rightarrow> bool" where
  "zero_d d = (d = Finite False 0 \<or> d = Finite True 0)"

definition negative_d :: "double \<Rightarrow> bool" where
  "negative_d d = (case d of Finite s m \<Rightarrow> s | Infinite s \<Rightarrow> s | NaN \<Rightarrow> False)"

text \<open>
  A negative finite non-zero base with a finite exponent that is not an integer: the
  arguments on which \<^verbatim>\<open>pow\<close> has no real value.
\<close>

definition neg_fractional :: "double \<Rightarrow> double \<Rightarrow> bool" where
  "neg_fractional r e =
     (case r of
        Finite s m \<Rightarrow> (case e of Finite t q \<Rightarrow> s \<and> m \<noteq> 0 \<and> \<not> is_int q | _ \<Rightarrow> False)
      | _ \<Rightarrow> False)"

text \<open>
  The values \<^verbatim>\<open>pow\<close> can return on an infinite or NaN base, or with an infinite
  exponent: a NaN, an infinity, a zero, or \<open>1\<close>.
\<close>

definition special_d :: "double \<Rightarrow> bool" where
  "special_d d = (case d of Finite s m \<Rightarrow> m = 0 \<or> (\<not> s \<and> m = 1) | _ \<Rightarrow> True)"

text \<open>
  One library for the closed examples below: the correctly rounded power.  The examples
  only reach arguments on which Annex F fixes the result.
\<close>

definition cr_pow :: "double \<Rightarrow> double \<Rightarrow> double" where
  "cr_pow x y =
     (case (x, y) of
        (Finite s m, Finite t n) \<Rightarrow> rnd (s \<and> odd_int n) (m powr val t n)
      | _ \<Rightarrow> NaN)"

section \<open>The constraint, as the specification writes it\<close>

text \<open>
  The left-hand side of the constraint, \<open>a\<^sub>0 * x\<^sub>0 ^ p\<^sub>0 + ... + a\<^sub>n\<^sub>-\<^sub>1 * x\<^sub>n\<^sub>-\<^sub>1 ^ p\<^sub>n\<^sub>-\<^sub>1\<close>,
  summed from \<open>0.0\<close> in the order of the indices, in the arithmetic \<open>F\<close>.
\<close>

definition constraint_sum :: "'d fpu \<Rightarrow> (nat \<Rightarrow> 'd) \<Rightarrow> ptr \<Rightarrow> ptr \<Rightarrow> ptr \<Rightarrow> int \<Rightarrow> 'd" where
  "constraint_sum F h x a p n =
     foldl (\<lambda>s j. add_d F s (mul_d F (h (a + j)) (pow_d F (h (x + j)) (h (p + j)))))
       (lit F 0) [0 ..< nat n]"

text \<open>
  One turn of the solver's loop, as a function on the store: the write of \<open>x[j]\<close>.
\<close>

definition pk_step :: "'d fpu \<Rightarrow> ptr \<Rightarrow> ptr \<Rightarrow> 'd \<Rightarrow> ptr \<Rightarrow> (nat \<Rightarrow> 'd) \<Rightarrow> nat \<Rightarrow> (nat \<Rightarrow> 'd)" where
  "pk_step F a p k x h j =
     h(x + j := pow_d F (div_d F k (h (a + j))) (div_d F (lit F 1) (h (p + j))))"

text \<open>
  The solution as the specification writes it: component \<open>j\<close> is \<^verbatim>\<open>pow\<close> of
  a radicand, \<open>(b - (n-1)*k) / a[0]\<close> for \<open>j = 0\<close> and \<open>k / a[j]\<close> otherwise, and
  of the exponent \<open>1 / p[j]\<close>.
\<close>

definition pk_radicand :: "'d fpu \<Rightarrow> (nat \<Rightarrow> 'd) \<Rightarrow> ptr \<Rightarrow> 'd \<Rightarrow> 'd \<Rightarrow> int \<Rightarrow> nat \<Rightarrow> 'd" where
  "pk_radicand F h a b k n j =
     (if j = 0 then div_d F (sub_d F b (mul_d F (of_int_d F (n - 1)) k)) (h a)
      else div_d F k (h (a + j)))"

definition pk_recip :: "'d fpu \<Rightarrow> (nat \<Rightarrow> 'd) \<Rightarrow> ptr \<Rightarrow> nat \<Rightarrow> 'd" where
  "pk_recip F h p j = div_d F (lit F 1) (h (p + j))"

definition pk_closed :: "'d fpu \<Rightarrow> (nat \<Rightarrow> 'd) \<Rightarrow> ptr \<Rightarrow> ptr \<Rightarrow> 'd \<Rightarrow> 'd \<Rightarrow> int \<Rightarrow> nat \<Rightarrow> 'd" where
  "pk_closed F h a p b k n j = pow_d F (pk_radicand F h a b k n j) (pk_recip F h p j)"

text \<open>
  The constraint's left-hand side on that solution, summed as \<open>constraint_sum\<close> is.
\<close>

definition round_trip_sum :: "'d fpu \<Rightarrow> (nat \<Rightarrow> 'd) \<Rightarrow> ptr \<Rightarrow> ptr \<Rightarrow> 'd \<Rightarrow> 'd \<Rightarrow> int \<Rightarrow> 'd" where
  "round_trip_sum F h a p b k n =
     foldl (\<lambda>s j. add_d F s (mul_d F (h (a + j)) (pow_d F (pk_closed F h a p b k n j) (h (p + j)))))
       (lit F 0) [0 ..< nat n]"

text \<open>
  A store for the closed examples: \<open>a\<close> is at address 2 and \<open>p\<close> at address 3, one
  element each; every other cell holds \<open>+0\<close>.
\<close>

definition example_store :: "double \<Rightarrow> double \<Rightarrow> nat \<Rightarrow> double" where
  "example_store a0 p0 = (\<lambda>c. if c = 2 then a0 else if c = 3 then p0 else Finite False 0)"

text \<open>
  A store for the closed examples with two variables: \<open>a\<close> is at addresses 2 and 3,
  \<open>p\<close> at 4 and 5; every other cell holds a NaN.
\<close>

definition example_store2 :: "double \<Rightarrow> double \<Rightarrow> double \<Rightarrow> double \<Rightarrow> nat \<Rightarrow> double" where
  "example_store2 a0 a1 p0 p1 =
     (\<lambda>c. if c = 2 then a0 else if c = 3 then a1
          else if c = 4 then p0 else if c = 5 then p1 else NaN)"

section \<open>The two loops\<close>

declare pk_loop.simps [simp del] vs_loop.simps [simp del]

lemma pk_loop_frame:
  "0 \<le> i \<Longrightarrow> c < x + nat i \<or> x + nat n \<le> c \<Longrightarrow> pk_loop F a p k n x i h c = h c"
proof (induction F a p k n x i h rule: pk_loop.induct)
  case (1 F a p k n x i h)
  let ?h' = "h(x + nat i := pow_d F (div_d F k (h (a + nat i)))
                                     (div_d F (lit F 1) (h (p + nat i))))"
  show ?case
  proof (cases "i < n")
    case True
    have unf: "pk_loop F a p k n x i h = pk_loop F a p k n x (i + 1) ?h'"
      using True by (subst pk_loop.simps) simp
    have nonneg: "0 \<le> i + 1" using "1.prems"(1) by simp
    have out: "c < x + nat (i + 1) \<or> x + nat n \<le> c"
      using "1.prems" by auto
    have ne: "c \<noteq> x + nat i" using "1.prems" True by auto
    from "1.IH" [OF True nonneg out]
    have "pk_loop F a p k n x (i + 1) ?h' c = ?h' c" .
    also have "?h' c = h c" using ne by (simp add: fun_upd_def)
    finally show ?thesis using unf by simp
  next
    case False
    then show ?thesis by (subst pk_loop.simps) simp
  qed
qed

lemma pk_loop_value:
  "0 \<le> i \<Longrightarrow> i \<le> j \<Longrightarrow> j < n \<Longrightarrow>
   x \<le> a \<or> a + nat n \<le> x \<Longrightarrow> x \<le> p \<or> p + nat n \<le> x \<Longrightarrow>
   pk_loop F a p k n x i h (x + nat j) =
     pow_d F (div_d F k (h (a + nat j))) (div_d F (lit F 1) (h (p + nat j)))"
proof (induction F a p k n x i h rule: pk_loop.induct)
  case (1 F a p k n x i h)
  let ?h' = "h(x + nat i := pow_d F (div_d F k (h (a + nat i)))
                                     (div_d F (lit F 1) (h (p + nat i))))"
  have lt: "i < n" using "1.prems" by simp
  have unf: "pk_loop F a p k n x i h = pk_loop F a p k n x (i + 1) ?h'"
    using lt by (subst pk_loop.simps) simp
  show ?case
  proof (cases "j = i")
    case True
    have "pk_loop F a p k n x (i + 1) ?h' (x + nat i) = ?h' (x + nat i)"
      using "1.prems"(1) by (intro pk_loop_frame) auto
    then show ?thesis using True unf by simp
  next
    case False
    then have ij: "i + 1 \<le> j" using "1.prems" by simp
    have ne: "x + nat i \<noteq> a + nat j" "x + nat i \<noteq> p + nat j"
      using "1.prems" ij by auto
    have "0 \<le> i + 1" using "1.prems" by simp
    from "1.IH" [OF lt this ij "1.prems"(3,4,5)]
    have "pk_loop F a p k n x (i + 1) ?h' (x + nat j) =
          pow_d F (div_d F k (?h' (a + nat j))) (div_d F (lit F 1) (?h' (p + nat j)))" .
    moreover have "?h' (a + nat j) = h (a + nat j)" "?h' (p + nat j) = h (p + nat j)"
      using ne by (simp_all add: fun_upd_def)
    ultimately show ?thesis using unf by simp
  qed
qed

lemma vs_loop_fold:
  "0 \<le> i \<Longrightarrow> vs_loop F h x a p n i s =
     foldl (\<lambda>s j. add_d F s (mul_d F (h (a + j)) (pow_d F (h (x + j)) (h (p + j))))) s
       [nat i ..< nat n]"
proof (induction F h x a p n i s rule: vs_loop.induct)
  case (1 F h x a p n i s)
  show ?case
  proof (cases "i < n")
    case True
    have "[nat i ..< nat n] = nat i # [nat (i + 1) ..< nat n]"
      using True "1.prems" by (simp add: upt_conv_Cons nat_add_distrib)
    then show ?thesis using "1.IH" [OF True] "1.prems" True
      by (subst vs_loop.simps) simp
  next
    case False
    then show ?thesis using "1.prems" by (subst vs_loop.simps) simp
  qed
qed

lemma pk_loop_fold:
  "0 \<le> i \<Longrightarrow> pk_loop F a p k n x i h = foldl (pk_step F a p k x) h [nat i ..< nat n]"
proof (induction F a p k n x i h rule: pk_loop.induct)
  case (1 F a p k n x i h)
  show ?case
  proof (cases "i < n")
    case True
    have step: "pk_step F a p k x h (nat i) =
                h(x + nat i := pow_d F (div_d F k (h (a + nat i)))
                                       (div_d F (lit F 1) (h (p + nat i))))"
      by (simp add: pk_step_def)
    have unf: "pk_loop F a p k n x i h = pk_loop F a p k n x (i + 1) (pk_step F a p k x h (nat i))"
      unfolding step using True by (subst pk_loop.simps) simp
    have nonneg: "0 \<le> i + 1" using "1.prems" by simp
    have "[nat i ..< nat n] = nat i # [nat (i + 1) ..< nat n]"
      using True "1.prems" by (simp add: upt_conv_Cons nat_add_distrib)
    then have "foldl (pk_step F a p k x) h [nat i ..< nat n] =
               foldl (pk_step F a p k x) (pk_step F a p k x h (nat i)) [nat (i + 1) ..< nat n]"
      by simp
    also have "\<dots> = pk_loop F a p k n x (i + 1) (pk_step F a p k x h (nat i))"
      unfolding step by (rule "1.IH" [OF True nonneg, symmetric])
    finally show ?thesis using unf by simp
  next
    case False
    then show ?thesis using "1.prems" by (subst pk_loop.simps) simp
  qed
qed

lemma verify_solution_result:
  assumes "x \<noteq> NULL" "a \<noteq> NULL" "p \<noteq> NULL" "error \<noteq> NULL"
  shows "verify_solution F h x a p b n error =
           \<lparr>ret = (if lt_d F (fabs_d F (sub_d F (constraint_sum F h x a p n) b))
                             (lit F (1 / 10 ^ 10)) then 1 else 0),
            mem = h(error := fabs_d F (sub_d F (constraint_sum F h x a p n) b)),
            err_lines = []\<rparr>"
  using assms vs_loop_fold [of 0 F h x a p n "lit F 0"]
  by (simp add: verify_solution_def constraint_sum_def Let_def)

lemma pk_formula_success:
  assumes "0 < n" "a \<noteq> NULL" "p \<noteq> NULL" "x \<noteq> NULL"
  shows "pk_formula F h a p b k n x =
           \<lparr>ret = 0,
            mem = pk_loop F a p k n x 1
                    (h(x := pow_d F (div_d F (sub_d F b (mul_d F (of_int_d F (n - 1)) k)) (h a))
                                    (div_d F (lit F 1) (h p)))),
            err_lines = []\<rparr>"
  using assms by (simp add: pk_formula_def Let_def)

lemma pk_loop_done: "n \<le> i \<Longrightarrow> pk_loop F a p k n x i h = h"
  by (subst pk_loop.simps) simp

lemma pk_formula_one:
  assumes "a \<noteq> NULL" and "p \<noteq> NULL" and "x \<noteq> NULL"
  shows "pk_formula F h a p b k 1 x =
           \<lparr>ret = 0,
            mem = h(x := pow_d F (div_d F (sub_d F b (mul_d F (of_int_d F 0) k)) (h a))
                                 (div_d F (lit F 1) (h p))),
            err_lines = []\<rparr>"
  using assms by (simp add: pk_formula_success pk_loop_done)

lemma constraint_sum_one:
  "constraint_sum F h x a p 1 =
     add_d F (lit F 0) (mul_d F (h a) (pow_d F (h x) (h p)))"
  by (simp add: constraint_sum_def)

lemma pk_formula_first:
  assumes "1 \<le> n" and "a \<noteq> NULL" and "p \<noteq> NULL" and "x \<noteq> NULL"
  shows "mem (pk_formula F h a p b k n x) x =
           pow_d F (div_d F (sub_d F b (mul_d F (of_int_d F (n - 1)) k)) (h a))
                   (div_d F (lit F 1) (h p))"
  using assms pk_loop_frame [of 1 x x n F a p k]
  by (simp add: pk_formula_success)

lemma pk_formula_rest:
  assumes "1 \<le> n" and "a \<noteq> NULL" and "p \<noteq> NULL" and "x \<noteq> NULL"
    and "x \<le> a \<or> a + nat n \<le> x" and "x \<le> p \<or> p + nat n \<le> x"
    and "1 \<le> i" and "i < n"
  shows "mem (pk_formula F h a p b k n x) (x + nat i) =
           pow_d F (div_d F k (h (a + nat i))) (div_d F (lit F 1) (h (p + nat i)))"
proof -
  let ?h0 = "h(x := pow_d F (div_d F (sub_d F b (mul_d F (of_int_d F (n - 1)) k)) (h a))
                           (div_d F (lit F 1) (h p)))"
  have "x \<noteq> a + nat i" "x \<noteq> p + nat i" using assms(5-8) by auto
  then have "?h0 (a + nat i) = h (a + nat i)" "?h0 (p + nat i) = h (p + nat i)"
    by simp_all
  then have "pk_loop F a p k n x 1 ?h0 (x + nat i) =
          pow_d F (div_d F k (h (a + nat i))) (div_d F (lit F 1) (h (p + nat i)))"
    using pk_loop_value [of 1 i n x a p F k ?h0] assms(5-8) by simp
  then show ?thesis using assms(1-4) by (simp add: pk_formula_success)
qed

lemma pk_formula_frame:
  assumes "1 \<le> n" and "a \<noteq> NULL" and "p \<noteq> NULL" and "x \<noteq> NULL"
    and "c < x \<or> x + nat n \<le> c"
  shows "mem (pk_formula F h a p b k n x) c = h c"
proof -
  let ?h0 = "h(x := pow_d F (div_d F (sub_d F b (mul_d F (of_int_d F (n - 1)) k)) (h a))
                           (div_d F (lit F 1) (h p)))"
  have "pk_loop F a p k n x 1 ?h0 c = ?h0 c"
    using assms(5) by (intro pk_loop_frame) auto
  moreover have "c \<noteq> x" using assms(1,5) by auto
  ultimately show ?thesis using assms(1-4) by (simp add: pk_formula_success)
qed

lemma pk_formula_component:
  assumes "1 \<le> n" and "a \<noteq> NULL" and "p \<noteq> NULL" and "x \<noteq> NULL"
    and "x \<le> a \<or> a + nat n \<le> x" and "x \<le> p \<or> p + nat n \<le> x"
    and "j < nat n"
  shows "mem (pk_formula F h a p b k n x) (x + j) = pk_closed F h a p b k n j"
proof (cases "j = 0")
  case True
  then show ?thesis
    using assms(1-4) pk_formula_first [of n a p x F h b k]
    by (simp add: pk_closed_def pk_radicand_def pk_recip_def)
next
  case False
  then have "1 \<le> int j" "int j < n" using assms(7) by auto
  from pk_formula_rest [OF assms(1-6) this, of F h b k] show ?thesis
    using False by (simp add: pk_closed_def pk_radicand_def pk_recip_def)
qed

lemma constraint_sum_round_trip:
  assumes "1 \<le> n" and "a \<noteq> NULL" and "p \<noteq> NULL" and "x \<noteq> NULL"
    and "x + nat n \<le> a \<or> a + nat n \<le> x" and "x + nat n \<le> p \<or> p + nat n \<le> x"
  shows "constraint_sum F (mem (pk_formula F h a p b k n x)) x a p n =
           round_trip_sum F h a p b k n"
  unfolding constraint_sum_def round_trip_sum_def
proof (rule foldl_cong [OF refl refl])
  fix s j
  assume "j \<in> set [0 ..< nat n]"
  then have j: "j < nat n" by simp
  let ?H = "mem (pk_formula F h a p b k n x)"
  have al: "x \<le> a \<or> a + nat n \<le> x" "x \<le> p \<or> p + nat n \<le> x"
    using assms(5,6) by auto
  have "?H (a + j) = h (a + j)" "?H (p + j) = h (p + j)"
    using j assms(5,6) by (auto intro!: pk_formula_frame assms(1-4))
  moreover have "?H (x + j) = pk_closed F h a p b k n j"
    using assms(1-4) al j by (rule pk_formula_component)
  ultimately show "add_d F s (mul_d F (?H (a + j)) (pow_d F (?H (x + j)) (?H (p + j)))) =
      add_d F s (mul_d F (h (a + j)) (pow_d F (pk_closed F h a p b k n j) (h (p + j))))"
    by simp
qed

section \<open>Facts of the arithmetic\<close>

lemma upt_two: "[0 ..< 2] = [0, 1]"
  by (simp add: upt_rec)

lemma constraint_sum_two:
  "constraint_sum F h x a p 2 =
     add_d F (add_d F (lit F 0) (mul_d F (h a) (pow_d F (h x) (h p))))
       (mul_d F (h (a + 1)) (pow_d F (h (x + 1)) (h (p + 1))))"
  by (simp add: constraint_sum_def upt_two)

lemma round_trip_sum_two:
  "round_trip_sum F h a p b k 2 =
     add_d F (add_d F (lit F 0) (mul_d F (h a) (pow_d F (pk_closed F h a p b k 2 0) (h p))))
       (mul_d F (h (a + 1)) (pow_d F (pk_closed F h a p b k 2 1) (h (p + 1))))"
  by (simp add: round_trip_sum_def upt_two)

text \<open>
  The exponent search is given enough steps: on every magnitude that rounding passes
  to it, \<open>expo 1100\<close> returns the binary exponent.
\<close>

lemma pow2_powi: "pow2 e = 2 powi e"
  by (simp add: pow2_def power_int_def power_one_over)

lemma pow2_step: "pow2 (e + 1) = 2 * pow2 e"
  by (simp add: pow2_powi power_int_add)

lemma pow2_pos: "0 < pow2 e"
  by (simp add: pow2_powi)

lemma pow2_mono: "d \<le> e \<Longrightarrow> pow2 d \<le> pow2 e"
  by (simp add: pow2_powi power_int_increasing)

lemma expo_bounds:
  "pow2 (- int f) \<le> m \<Longrightarrow> m < pow2 (int f + 1) \<Longrightarrow>
   pow2 (expo f m) \<le> m \<and> m < pow2 (expo f m + 1)"
proof (induction f arbitrary: m)
  case 0
  then show ?case by (simp add: pow2_def)
next
  case (Suc f)
  consider "2 \<le> m" | "m < 1" | "1 \<le> m" "m < 2" by linarith
  then show ?case
  proof cases
    case 1
    have "pow2 (- int f) \<le> pow2 0" by (rule pow2_mono) simp
    then have lo: "pow2 (- int f) \<le> m / 2" using 1 by (simp add: pow2_def)
    have "m < 2 * pow2 (int f + 1)" using Suc.prems(2) pow2_step [of "int f + 1"]
      by (simp add: add.commute)
    then have hi: "m / 2 < pow2 (int f + 1)" by simp
    from Suc.IH [OF lo hi] show ?thesis
      using 1 pow2_step [of "expo f (m / 2)"] pow2_step [of "expo f (m / 2) + 1"]
      by simp
  next
    case 2
    have "2 * pow2 (- int (Suc f)) = pow2 (- int f)"
      using pow2_step [of "- int (Suc f)"] by simp
    then have lo: "pow2 (- int f) \<le> 2 * m" using Suc.prems(1) by simp
    have "pow2 0 \<le> pow2 (int f)" by (rule pow2_mono) simp
    then have "2 \<le> pow2 (int f + 1)" using pow2_step [of "int f"] by (simp add: pow2_def)
    then have hi: "2 * m < pow2 (int f + 1)" using 2 by simp
    from Suc.IH [OF lo hi] show ?thesis
      using 2 pow2_step [of "expo f (2 * m) - 1"] pow2_step [of "expo f (2 * m)"]
      by simp
  next
    case 3
    then show ?thesis by (simp add: pow2_def)
  qed
qed

lemma expo_in_rnd:
  assumes "pow2 (- 1022) \<le> m" and "m < pow2 1024"
  shows "pow2 (expo 1100 m) \<le> m \<and> m < pow2 (expo 1100 m + 1)"
proof -
  have "pow2 (- int 1100) \<le> pow2 (- 1022)" by (rule pow2_mono) simp
  moreover have "pow2 1024 \<le> pow2 (int 1100 + 1)" by (rule pow2_mono) simp
  ultimately show ?thesis
    using assms expo_bounds [of 1100 m] by simp
qed

lemma expo_numeral:
  "expo (numeral w) m =
     (if 2 \<le> m then expo (pred_numeral w) (m / 2) + 1
      else if m < 1 then expo (pred_numeral w) (2 * m) - 1
      else 0)"
  by (simp add: numeral_eq_Suc)

lemma rnd_zero: "rnd s 0 = Finite s 0"
  by (simp add: rnd_def pow2_def rne_def)

lemma rnd_one: "rnd s 1 = Finite s 1"
  by (simp add: rnd_def pow2_def rne_def expo_numeral)

lemma rnd_half: "rnd s (1 / 2) = Finite s (1 / 2)"
  by (simp add: rnd_def pow2_def rne_def expo_numeral)

lemma ieee_tol_positive: "ieee_lt (Finite False 0) (ieee_lit (1 / 10 ^ 10))"
  by (simp add: ieee_lit_def rnd_def pow2_def rne_def expo_numeral val_def)

lemma ieee_tol_below_one: "\<not> ieee_lt (Finite False 1) (ieee_lit (1 / 10 ^ 10))"
  by (simp add: ieee_lit_def rnd_def pow2_def rne_def expo_numeral val_def)

lemma rnd_sign: "rnd s m = Finite s r \<Longrightarrow> rnd t m = Finite t r"
  by (simp add: rnd_def Let_def split: if_splits)

lemma ieee_of_int_0: "ieee_of_int 0 = Finite False 0"
  by (simp add: ieee_of_int_def rnd_zero)

lemma ieee_lit_0: "ieee_lit 0 = Finite False 0"
  by (simp add: ieee_lit_def rnd_zero)

lemma ieee_lit_1: "ieee_lit 1 = Finite False 1"
  by (simp add: ieee_lit_def rnd_one)

text \<open>The rules that evaluate the arithmetic on the closed examples.\<close>

lemmas rnd_eval = rnd_def pow2_def rne_def expo_numeral

lemmas ieee_eval =
  ieee_of_int_def ieee_lit_def ieee_sub_def ieee_pow_def val_def is_int_def odd_int_def
  rnd_zero rnd_one rnd_half example_store_def NULL_def

lemmas ieee_eval2 =
  pk_radicand_def pk_recip_def pk_closed_def round_trip_sum_two constraint_sum_two
  example_store2_def

lemma ieee_arith_sel:
  "of_int_d (ieee_arith lp) = ieee_of_int" "lit (ieee_arith lp) = ieee_lit"
  "add_d (ieee_arith lp) = ieee_add" "sub_d (ieee_arith lp) = ieee_sub"
  "mul_d (ieee_arith lp) = ieee_mul" "div_d (ieee_arith lp) = ieee_div"
  "pow_d (ieee_arith lp) = ieee_pow lp" "fabs_d (ieee_arith lp) = ieee_fabs"
  "lt_d (ieee_arith lp) = ieee_lt"
  by (simp_all add: ieee_arith_def)

lemma ieee_sub_zero:
  assumes "is_double b" and "b \<noteq> Finite True 0 \<or> \<not> s"
  shows "ieee_sub b (Finite s 0) = b"
proof (cases b)
  case (Finite t n)
  show ?thesis
  proof (cases "n = 0")
    case True
    then show ?thesis using Finite assms(2) by (auto simp: ieee_sub_def val_def)
  next
    case False
    then have pos: "0 < n" and fixed: "rnd t n = Finite t n"
      using assms(1) Finite by (simp_all add: is_double_def)
    show ?thesis
      using Finite False pos fixed by (cases t) (simp_all add: ieee_sub_def val_def)
  qed
qed (simp_all add: ieee_sub_def)

lemma ieee_fabs_zero_sub:
  assumes "is_double b"
  shows "ieee_fabs (ieee_sub (Finite False 0) b) = ieee_fabs b"
proof (cases b)
  case (Finite t n)
  show ?thesis
  proof (cases "n = 0")
    case True
    then show ?thesis using Finite by (simp add: ieee_sub_def val_def)
  next
    case False
    then have pos: "0 < n" and fixed: "rnd t n = Finite t n"
      using assms(1) Finite by (simp_all add: is_double_def)
    have "rnd (\<not> t) n = Finite (\<not> t) n" using fixed by (rule rnd_sign)
    then show ?thesis
      using Finite False pos by (cases t) (simp_all add: ieee_sub_def val_def)
  qed
qed (simp_all add: ieee_sub_def)

lemma ieee_div_by_zero: "zero_d d \<Longrightarrow> \<not> finite_d (ieee_div r d)"
  by (cases r) (auto simp: zero_d_def finite_d_def split: if_splits)

lemma ieee_one_over_zero: "zero_d d \<Longrightarrow> ieee_div (ieee_lit 1) d = Infinite (negative_d d)"
  by (auto simp: zero_d_def ieee_lit_1 negative_d_def)

lemma constraint_sum_empty: "n \<le> 0 \<Longrightarrow> constraint_sum F h x a p n = lit F 0"
  by (simp add: constraint_sum_def)

lemma ieee_pow_neg_fractional: "neg_fractional r e \<Longrightarrow> ieee_pow lp r e = NaN"
  by (auto simp: neg_fractional_def ieee_pow_def is_int_def split: double.splits)

lemma ieee_recip_finite:
  assumes "ieee_div (ieee_lit 1) d = Finite t q" and "\<not> is_int q"
  shows "\<exists>u v. d = Finite u v \<and> v \<noteq> 0"
  using assms by (cases d) (auto simp: ieee_lit_1 is_int_def split: if_splits)

lemma ieee_pow_nan_base:
  "y \<noteq> Finite False 0 \<Longrightarrow> y \<noteq> Finite True 0 \<Longrightarrow> ieee_pow lp NaN y = NaN"
  by (simp add: ieee_pow_def)

lemma ieee_mul_nan: "ieee_mul y NaN = NaN"
  by (cases y) simp_all

lemma ieee_add_nan: "ieee_add y NaN = NaN"
  by (cases y) simp_all

lemma foldl_nan:
  "foldl (\<lambda>s j. ieee_add s (f j)) NaN js = NaN"
  by (induction js) simp_all

lemma foldl_reaches_nan:
  assumes "j \<in> set js" and "f j = NaN"
  shows "foldl (\<lambda>s j. ieee_add s (f j)) s0 js = NaN"
  using assms
proof (induction js arbitrary: s0)
  case Nil
  then show ?case by simp
next
  case (Cons i js)
  show ?case
  proof (cases "f i = NaN")
    case True
    then show ?thesis by (simp add: ieee_add_nan foldl_nan)
  next
    case False
    then have "j \<in> set js" using Cons.prems by auto
    then show ?thesis using Cons.IH Cons.prems(2) by simp
  qed
qed

lemma round_trip_sum_nan:
  assumes "j < nat n"
    and "neg_fractional (pk_radicand (ieee_arith lp) h a b k n j) (pk_recip (ieee_arith lp) h p j)"
  shows "round_trip_sum (ieee_arith lp) h a p b k n = NaN"
proof -
  let ?I = "ieee_arith lp"
  have c: "pk_closed ?I h a p b k n j = NaN"
    using assms(2) by (simp add: pk_closed_def ieee_arith_sel ieee_pow_neg_fractional)
  obtain t q where e: "ieee_div (ieee_lit 1) (h (p + j)) = Finite t q" "\<not> is_int q"
    using assms(2)
    by (auto simp: neg_fractional_def pk_recip_def ieee_arith_sel split: double.splits)
  then obtain u v where d: "h (p + j) = Finite u v" "v \<noteq> 0"
    using ieee_recip_finite by blast
  have "ieee_pow lp NaN (h (p + j)) = NaN"
    using d by (intro ieee_pow_nan_base) auto
  then have tnan: "ieee_mul (h (a + j)) (ieee_pow lp (pk_closed ?I h a p b k n j) (h (p + j))) = NaN"
    using c by (simp add: ieee_mul_nan)
  have "j \<in> set [0 ..< nat n]" using assms(1) by simp
  from foldl_reaches_nan [OF this,
      of "\<lambda>j. ieee_mul (h (a + j)) (ieee_pow lp (pk_closed ?I h a p b k n j) (h (p + j)))", OF tnan]
  show ?thesis by (simp add: round_trip_sum_def ieee_arith_sel)
qed

lemma ieee_pow_nonfinite_base: "\<not> finite_d r \<Longrightarrow> special_d (ieee_pow lp r y)"
  by (cases r; cases y) (auto simp: finite_d_def special_d_def ieee_pow_def)

lemma ieee_pow_infinite_expo: "special_d (ieee_pow lp r (Infinite t))"
  by (cases r) (auto simp: special_d_def ieee_pow_def)

lemma ieee_div_nan_free: "ieee_div r d = Finite s m \<Longrightarrow> r \<noteq> NaN"
  by (cases r) simp_all

text \<open>
  Cancellation in the round trip: \<open>a = [-2^60, 2^60]\<close>, \<open>p = [2.0, 2.0]\<close>, \<open>b = 1.0\<close>,
  \<open>k = 2^60\<close>.  The difference \<open>b - (n-1)*k\<close> is rounded to \<open>-2^60\<close>, both radicands
  are \<open>1\<close>, both components are \<open>pow(1, 0.5) = 1\<close>, and the recomputed sum is
  \<open>-2^60 + 2^60 = 0\<close>.
\<close>

lemma cancel_store:
  "constraint_sum (ieee_arith cr_pow)
     (mem (pk_formula (ieee_arith cr_pow)
        (example_store2 (Finite True (2 ^ 60)) (Finite False (2 ^ 60)) (Finite False 2) (Finite False 2))
        2 4 (Finite False 1) (Finite False (2 ^ 60)) 2 6)) 6 2 4 2 =
   round_trip_sum (ieee_arith cr_pow)
        (example_store2 (Finite True (2 ^ 60)) (Finite False (2 ^ 60)) (Finite False 2) (Finite False 2))
        2 4 (Finite False 1) (Finite False (2 ^ 60)) 2"
  by (rule constraint_sum_round_trip) (simp_all add: NULL_def)

lemma cancel_sum:
  "round_trip_sum (ieee_arith cr_pow)
        (example_store2 (Finite True (2 ^ 60)) (Finite False (2 ^ 60)) (Finite False 2) (Finite False 2))
        2 4 (Finite False 1) (Finite False (2 ^ 60)) 2 = Finite False 0"
  by (simp add: ieee_arith_sel ieee_eval ieee_eval2 rnd_eval)

lemma cancel_verify:
  "mem (verify_solution (ieee_arith cr_pow)
     (mem (pk_formula (ieee_arith cr_pow) (example_store2 (Finite True (2 ^ 60)) (Finite False (2 ^ 60)) (Finite False 2) (Finite False 2))
        2 4 (Finite False 1) (Finite False (2 ^ 60)) 2 6)) 6 2 4 (Finite False 1) 2 8) 8 = Finite False 1
   \<and> ret (verify_solution (ieee_arith cr_pow)
     (mem (pk_formula (ieee_arith cr_pow) (example_store2 (Finite True (2 ^ 60)) (Finite False (2 ^ 60)) (Finite False 2) (Finite False 2))
        2 4 (Finite False 1) (Finite False (2 ^ 60)) 2 6)) 6 2 4 (Finite False 1) 2 8) = 0"
proof -
  let ?I = "ieee_arith cr_pow"
  let ?M = "mem (pk_formula ?I (example_store2 (Finite True (2 ^ 60)) (Finite False (2 ^ 60)) (Finite False 2) (Finite False 2)) 2 4 (Finite False 1) (Finite False (2 ^ 60)) 2 6)"
  have nn: "(6::nat) \<noteq> NULL" "(2::nat) \<noteq> NULL" "(4::nat) \<noteq> NULL" "(8::nat) \<noteq> NULL"
    by (simp_all add: NULL_def)
  have e: "ieee_fabs (ieee_sub (Finite False 0) (Finite False 1)) = Finite False 1"
    by (simp add: ieee_eval)
  have "fabs_d ?I (sub_d ?I (constraint_sum ?I ?M 6 2 4 2) (Finite False 1)) = Finite False 1"
    by (simp only: cancel_store cancel_sum ieee_arith_sel e)
  then show ?thesis
    using ieee_tol_below_one
    by (simp only: verify_solution_result [OF nn]) (simp add: ieee_arith_sel)
qed

section \<open>The solver's closed form\<close>

text \<open>
  C1.  For every \<open>n \<ge> 1\<close> and non-NULL \<open>a\<close>, \<open>p\<close>, \<open>x\<close>, \<^verbatim>\<open>pk_formula\<close> returns
  \<open>0\<close>, leaves \<open>x[0] = pow((b - (n-1)*k) / a[0], 1/p[0])\<close> and
  \<open>x[i] = pow(k / a[i], 1/p[i])\<close> for \<open>1 \<le> i < n\<close>, and writes nothing outside
  \<open>x[0..n)\<close>; the final store is one pass of \<open>n - 1\<close> single writes after the
  write of \<open>x[0]\<close>.  The arrays are those the caller passed: \<open>x\<close> does not begin
  strictly inside \<open>a\<close> or \<open>p\<close> (it may be \<open>a\<close> or \<open>p\<close> itself, or lie apart),
  so no element of \<open>a\<close> or \<open>p\<close> is overwritten before it is read.  The values
  \<open>a[i]\<close> and \<open>p[i]\<close> are those before the call.  This holds in every arithmetic.
\<close>

theorem pk_formula_closed_form:
  assumes "1 \<le> n" and "a \<noteq> NULL" and "p \<noteq> NULL" and "x \<noteq> NULL"
    and "x \<le> a \<or> a + nat n \<le> x" and "x \<le> p \<or> p + nat n \<le> x"
  shows "ret (pk_formula F h a p b k n x) = 0
       \<and> mem (pk_formula F h a p b k n x) x =
           pow_d F (div_d F (sub_d F b (mul_d F (of_int_d F (n - 1)) k)) (h a))
                   (div_d F (lit F 1) (h p))
       \<and> (\<forall>i. 1 \<le> i \<and> i < n \<longrightarrow>
             mem (pk_formula F h a p b k n x) (x + nat i) =
               pow_d F (div_d F k (h (a + nat i))) (div_d F (lit F 1) (h (p + nat i))))
       \<and> (\<forall>c. c < x \<or> x + nat n \<le> c \<longrightarrow> mem (pk_formula F h a p b k n x) c = h c)
       \<and> mem (pk_formula F h a p b k n x) =
           foldl (pk_step F a p k x)
             (h(x := pow_d F (div_d F (sub_d F b (mul_d F (of_int_d F (n - 1)) k)) (h a))
                             (div_d F (lit F 1) (h p))))
             [1 ..< nat n]"
proof -
  have c1: "ret (pk_formula F h a p b k n x) = 0"
    using assms(1-4) by (simp add: pk_formula_success)
  have c2: "mem (pk_formula F h a p b k n x) x =
      pow_d F (div_d F (sub_d F b (mul_d F (of_int_d F (n - 1)) k)) (h a))
              (div_d F (lit F 1) (h p))"
    using assms(1-4) by (rule pk_formula_first)
  have c3: "\<forall>i. 1 \<le> i \<and> i < n \<longrightarrow>
      mem (pk_formula F h a p b k n x) (x + nat i) =
        pow_d F (div_d F k (h (a + nat i))) (div_d F (lit F 1) (h (p + nat i)))"
    using assms by (blast intro: pk_formula_rest)
  have c4: "\<forall>c. c < x \<or> x + nat n \<le> c \<longrightarrow> mem (pk_formula F h a p b k n x) c = h c"
    using assms(1-4) by (blast intro: pk_formula_frame)
  have c5: "mem (pk_formula F h a p b k n x) =
      foldl (pk_step F a p k x)
        (h(x := pow_d F (div_d F (sub_d F b (mul_d F (of_int_d F (n - 1)) k)) (h a))
                        (div_d F (lit F 1) (h p))))
        [1 ..< nat n]"
    using assms(1-4) pk_loop_fold [of 1 F a p k n x] by (simp add: pk_formula_success)
  from c1 c2 c3 c4 c5 show ?thesis by (intro conjI)
qed

theorem pk_formula_closed_form_witness:
  "(1::int) \<le> 2 \<and> (2::nat) \<noteq> NULL \<and> (4::nat) \<noteq> NULL \<and> (6::nat) \<noteq> NULL
   \<and> ((6::nat) \<le> 2 \<or> 2 + nat 2 \<le> (6::nat)) \<and> ((6::nat) \<le> 4 \<or> 4 + nat 2 \<le> (6::nat))
   \<and> ret (pk_formula (ieee_arith cr_pow)
             (example_store2 (Finite False 1) (Finite False 2) (Finite False 1) (Finite False 1))
             2 4 (Finite False 1) (Finite False 0) 2 6) = 0
   \<and> mem (pk_formula (ieee_arith cr_pow)
             (example_store2 (Finite False 1) (Finite False 2) (Finite False 1) (Finite False 1))
             2 4 (Finite False 1) (Finite False 0) 2 6) 6 = Finite False 1
   \<and> mem (pk_formula (ieee_arith cr_pow)
             (example_store2 (Finite False 1) (Finite False 2) (Finite False 1) (Finite False 1))
             2 4 (Finite False 1) (Finite False 0) 2 6) 7 = Finite False 0
   \<and> mem (pk_formula (ieee_arith cr_pow)
             (example_store2 (Finite False 1) (Finite False 2) (Finite False 1) (Finite False 1))
             2 4 (Finite False 1) (Finite False 0) 2 6) 8 = NaN"
proof -
  let ?h = "example_store2 (Finite False 1) (Finite False 2) (Finite False 1) (Finite False 1)"
  let ?R = "pk_formula (ieee_arith cr_pow) ?h 2 4 (Finite False 1) (Finite False 0) 2 6"
  have hyps: "(1::int) \<le> 2" "(2::nat) \<noteq> NULL" "(4::nat) \<noteq> NULL" "(6::nat) \<noteq> NULL"
    "(6::nat) \<le> 2 \<or> 2 + nat 2 \<le> (6::nat)" "(6::nat) \<le> 4 \<or> 4 + nat 2 \<le> (6::nat)"
    by (simp_all add: NULL_def)
  note T = pk_formula_closed_form [OF hyps, of "ieee_arith cr_pow" ?h "Finite False 1" "Finite False 0"]
  note T1 = T [THEN conjunct1]
  note T2 = T [THEN conjunct2, THEN conjunct1]
  note T3 = T [THEN conjunct2, THEN conjunct2, THEN conjunct1, rule_format, of 1]
  note T4 = T [THEN conjunct2, THEN conjunct2, THEN conjunct2, THEN conjunct1, rule_format, of 8]
  have "mem ?R 6 = Finite False 1"
    using T2 by (simp add: ieee_arith_sel ieee_eval ieee_eval2)
  moreover have "mem ?R 7 = Finite False 0"
    using T3 by (simp add: ieee_arith_sel ieee_eval ieee_eval2)
  moreover have "mem ?R 8 = NaN"
    using T4 by (simp add: ieee_eval2)
  ultimately show ?thesis using hyps T1 by simp
qed


section \<open>The verifier's sum, error and flag\<close>

text \<open>
  C2.  For every \<open>n \<ge> 1\<close> and non-NULL \<open>x\<close>, \<open>a\<close>, \<open>p\<close>, \<open>error\<close>,
  \<^verbatim>\<open>verify_solution\<close> computes the sum of \<open>a[i] * pow(x[i], p[i])\<close> over
  \<open>0 \<le> i < n\<close>, writes \<open>*error = fabs(sum - b)\<close> and nothing else, and returns \<open>1\<close>
  exactly when \<open>*error < 1e-10\<close>, else \<open>0\<close>; the tolerance is the literal
  \<open>1e-10\<close>.  This holds in every arithmetic.
\<close>

theorem verify_solution_computes:
  assumes "1 \<le> n" and "x \<noteq> NULL" and "a \<noteq> NULL" and "p \<noteq> NULL" and "error \<noteq> NULL"
  shows "mem (verify_solution F h x a p b n error) =
           h(error := fabs_d F (sub_d F (constraint_sum F h x a p n) b))
       \<and> ret (verify_solution F h x a p b n error) =
           (if lt_d F (fabs_d F (sub_d F (constraint_sum F h x a p n) b)) (lit F (1 / 10 ^ 10))
            then 1 else 0)"
  using assms by (simp add: verify_solution_result)

theorem verify_solution_computes_witness:
  "(1::int) \<le> 2 \<and> (6::nat) \<noteq> NULL \<and> (2::nat) \<noteq> NULL \<and> (4::nat) \<noteq> NULL \<and> (8::nat) \<noteq> NULL
   \<and> mem (verify_solution (ieee_arith cr_pow)
            ((example_store2 (Finite False 1) (Finite False 2) (Finite False 1) (Finite False 1))
               (6 := Finite False 1, 7 := Finite False 0))
            6 2 4 (Finite False 2) 2 8) 8 = Finite False 1
   \<and> ret (verify_solution (ieee_arith cr_pow)
            ((example_store2 (Finite False 1) (Finite False 2) (Finite False 1) (Finite False 1))
               (6 := Finite False 1, 7 := Finite False 0))
            6 2 4 (Finite False 2) 2 8) = 0
   \<and> mem (verify_solution (ieee_arith cr_pow)
            ((example_store2 (Finite False 1) (Finite False 2) (Finite False 1) (Finite False 1))
               (6 := Finite False 1, 7 := Finite False 0))
            6 2 4 (Finite False 1) 2 8) 8 = Finite False 0
   \<and> ret (verify_solution (ieee_arith cr_pow)
            ((example_store2 (Finite False 1) (Finite False 2) (Finite False 1) (Finite False 1))
               (6 := Finite False 1, 7 := Finite False 0))
            6 2 4 (Finite False 1) 2 8) = 1"
proof -
  let ?g = "(example_store2 (Finite False 1) (Finite False 2) (Finite False 1) (Finite False 1))
               (6 := Finite False 1, 7 := Finite False 0)"
  have hyps: "(1::int) \<le> 2" "(6::nat) \<noteq> NULL" "(2::nat) \<noteq> NULL" "(4::nat) \<noteq> NULL"
    "(8::nat) \<noteq> NULL"
    by (simp_all add: NULL_def)
  have s: "constraint_sum (ieee_arith cr_pow) ?g 6 2 4 2 = Finite False 1"
    by (simp add: ieee_arith_sel ieee_eval ieee_eval2)
  have e2: "ieee_fabs (ieee_sub (Finite False 1) (Finite False 2)) = Finite False 1"
    and e1: "ieee_fabs (ieee_sub (Finite False 1) (Finite False 1)) = Finite False 0"
    by (simp_all add: ieee_eval)
  note A = verify_solution_computes [OF hyps, of "ieee_arith cr_pow" ?g "Finite False 2"]
  note B = verify_solution_computes [OF hyps, of "ieee_arith cr_pow" ?g "Finite False 1"]
  have "mem (verify_solution (ieee_arith cr_pow) ?g 6 2 4 (Finite False 2) 2 8) 8 = Finite False 1"
    using A [THEN conjunct1] by (simp add: s e2 ieee_arith_sel)
  moreover have "ret (verify_solution (ieee_arith cr_pow) ?g 6 2 4 (Finite False 2) 2 8) = 0"
    using A [THEN conjunct2] ieee_tol_below_one by (simp add: s e2 ieee_arith_sel)
  moreover have "mem (verify_solution (ieee_arith cr_pow) ?g 6 2 4 (Finite False 1) 2 8) 8 = Finite False 0"
    using B [THEN conjunct1] by (simp add: s e1 ieee_arith_sel)
  moreover have "ret (verify_solution (ieee_arith cr_pow) ?g 6 2 4 (Finite False 1) 2 8) = 1"
    using B [THEN conjunct2] ieee_tol_positive by (simp add: s e1 ieee_arith_sel)
  ultimately show ?thesis using hyps by simp
qed

section \<open>Round trip\<close>

text \<open>
  C3, as stated, fails on IEEE doubles, on inputs with no zero coefficient and no zero
  exponent.
  With \<open>a = [1.0]\<close>, \<open>p = [2.0]\<close>, \<open>b = -1.0\<close>, \<open>k = 0.0\<close>, \<open>n = 1\<close> the solver
  succeeds with \<open>x[0] = pow(-1.0, 0.5)\<close>, a NaN; the verifier's error is NaN, which is
  not below \<open>1e-10\<close>, and it returns \<open>0\<close>.
  A positive radicand does not save it: with \<open>a = [1.0]\<close>, \<open>p = [2^-1074]\<close> (the
  smallest positive double), \<open>b = 0.5\<close>, \<open>k = 0.0\<close>, \<open>n = 1\<close> the exponent
  \<open>1/p[0]\<close> overflows to \<open>+\<infinity>\<close>, \<open>x[0] = pow(0.5, +\<infinity>) = +0\<close>, the error is
  \<open>0.5\<close> and the flag \<open>0\<close>.
  Nor do ordinary values: with \<open>a = [-2^60, 2^60]\<close>, \<open>p = [2.0, 2.0]\<close>, \<open>b = 1.0\<close>,
  \<open>k = 2^60\<close>, \<open>n = 2\<close> both radicands are \<open>1\<close>, the solution is \<open>[1, 1]\<close>, the
  recomputed sum is \<open>0\<close>, the error is \<open>1\<close> and the flag \<open>0\<close>.
  All three results are those of Annex F, whatever the library.
\<close>

theorem round_trip_counterexample:
  "ret (pk_formula (ieee_arith cr_pow) (example_store (Finite False 1) (Finite False 2)) 2 3 (Finite True 1) (Finite False 0) 1 4) = 0
   \<and> mem (verify_solution (ieee_arith cr_pow)
            (mem (pk_formula (ieee_arith cr_pow) (example_store (Finite False 1) (Finite False 2)) 2 3
                    (Finite True 1) (Finite False 0) 1 4))
            4 2 3 (Finite True 1) 1 5) 5 = NaN
   \<and> \<not> ieee_lt NaN (ieee_lit (1 / 10 ^ 10))
   \<and> ret (verify_solution (ieee_arith cr_pow)
            (mem (pk_formula (ieee_arith cr_pow) (example_store (Finite False 1) (Finite False 2)) 2 3
                    (Finite True 1) (Finite False 0) 1 4))
            4 2 3 (Finite True 1) 1 5) = 0
   \<and> is_double (Finite False (1 / 2 ^ 1074))
   \<and> mem (verify_solution (ieee_arith cr_pow)
            (mem (pk_formula (ieee_arith cr_pow) (example_store (Finite False 1) (Finite False (1 / 2 ^ 1074))) 2 3
                    (Finite False (1 / 2)) (Finite False 0) 1 4))
            4 2 3 (Finite False (1 / 2)) 1 5) 5 = Finite False (1 / 2)
   \<and> ret (verify_solution (ieee_arith cr_pow)
            (mem (pk_formula (ieee_arith cr_pow) (example_store (Finite False 1) (Finite False (1 / 2 ^ 1074))) 2 3
                    (Finite False (1 / 2)) (Finite False 0) 1 4))
            4 2 3 (Finite False (1 / 2)) 1 5) = 0
   \<and> mem (verify_solution (ieee_arith cr_pow)
     (mem (pk_formula (ieee_arith cr_pow) (example_store2 (Finite True (2 ^ 60)) (Finite False (2 ^ 60)) (Finite False 2) (Finite False 2))
        2 4 (Finite False 1) (Finite False (2 ^ 60)) 2 6)) 6 2 4 (Finite False 1) 2 8) 8 = Finite False 1
   \<and> ret (verify_solution (ieee_arith cr_pow)
     (mem (pk_formula (ieee_arith cr_pow) (example_store2 (Finite True (2 ^ 60)) (Finite False (2 ^ 60)) (Finite False 2) (Finite False 2))
        2 4 (Finite False 1) (Finite False (2 ^ 60)) 2 6)) 6 2 4 (Finite False 1) 2 8) = 0"
  using cancel_verify
  by (simp add: pk_formula_one verify_solution_result constraint_sum_one ieee_arith_sel ieee_eval
      is_double_def rnd_eval)

text \<open>
  C3, amended.  On IEEE doubles, for \<open>n \<ge> 1\<close>, non-NULL pointers and an output
  array apart from \<open>a\<close> and \<open>p\<close>, the verifier run on the store the solver leaves
  writes \<open>*error = |S - b|\<close>, where \<open>S\<close> is the sum of \<open>a[i] * pow(x[i], p[i])\<close>
  over the closed-form components \<open>x[i]\<close>, and returns \<open>1\<close> exactly when that error
  is below \<open>1e-10\<close>.  No bound on the error follows from non-zero coefficients and
  exponents: whenever some radicand is a negative finite number and its exponent
  \<open>1/p[i]\<close> is finite and not an integer, the error is NaN and the flag is \<open>0\<close>.
  This holds for every library \<open>lp\<close>.
\<close>

theorem round_trip_on_doubles:
  assumes "1 \<le> n" and "a \<noteq> NULL" and "p \<noteq> NULL" and "x \<noteq> NULL" and "error \<noteq> NULL"
    and "x + nat n \<le> a \<or> a + nat n \<le> x" and "x + nat n \<le> p \<or> p + nat n \<le> x"
  shows "mem (verify_solution (ieee_arith lp) (mem (pk_formula (ieee_arith lp) h a p b k n x))
                x a p b n error) error =
           ieee_fabs (ieee_sub (round_trip_sum (ieee_arith lp) h a p b k n) b)
       \<and> ret (verify_solution (ieee_arith lp) (mem (pk_formula (ieee_arith lp) h a p b k n x))
                x a p b n error) =
           (if ieee_lt (ieee_fabs (ieee_sub (round_trip_sum (ieee_arith lp) h a p b k n) b))
                 (ieee_lit (1 / 10 ^ 10)) then 1 else 0)
       \<and> (\<forall>j. j < nat n
              \<and> neg_fractional (pk_radicand (ieee_arith lp) h a b k n j)
                               (pk_recip (ieee_arith lp) h p j) \<longrightarrow>
             mem (verify_solution (ieee_arith lp) (mem (pk_formula (ieee_arith lp) h a p b k n x))
                    x a p b n error) error = NaN
             \<and> ret (verify_solution (ieee_arith lp) (mem (pk_formula (ieee_arith lp) h a p b k n x))
                    x a p b n error) = 0)"
proof -
  let ?I = "ieee_arith lp"
  let ?V = "verify_solution ?I (mem (pk_formula ?I h a p b k n x)) x a p b n error"
  let ?e = "ieee_fabs (ieee_sub (round_trip_sum ?I h a p b k n) b)"
  have V: "?V = \<lparr>ret = (if ieee_lt ?e (ieee_lit (1 / 10 ^ 10)) then 1 else 0),
                  mem = (mem (pk_formula ?I h a p b k n x))(error := ?e),
                  err_lines = []\<rparr>"
    using assms(2-5) constraint_sum_round_trip [OF assms(1-4,6,7), of ?I h b k]
    by (simp add: verify_solution_result ieee_arith_sel)
  have c1: "mem ?V error = ?e" by (simp add: V)
  have c2: "ret ?V = (if ieee_lt ?e (ieee_lit (1 / 10 ^ 10)) then 1 else 0)" by (simp add: V)
  have c3: "mem ?V error = NaN \<and> ret ?V = 0"
    if "j < nat n" "neg_fractional (pk_radicand ?I h a b k n j) (pk_recip ?I h p j)" for j
  proof -
    have "round_trip_sum ?I h a p b k n = NaN" using that by (rule round_trip_sum_nan)
    then have "?e = NaN" by (simp add: ieee_sub_def)
    then show ?thesis using c1 c2 by simp
  qed
  from c1 c2 c3 show ?thesis by blast
qed


theorem round_trip_on_doubles_witness:
  "(1::int) \<le> 2 \<and> (2::nat) \<noteq> NULL \<and> (4::nat) \<noteq> NULL \<and> (6::nat) \<noteq> NULL \<and> (8::nat) \<noteq> NULL
   \<and> ((6::nat) + nat 2 \<le> 2 \<or> (2::nat) + nat 2 \<le> 6)
   \<and> ((6::nat) + nat 2 \<le> 4 \<or> (4::nat) + nat 2 \<le> 6)
   \<and> mem (verify_solution (ieee_arith cr_pow) (mem (pk_formula (ieee_arith cr_pow) (example_store2 (Finite False 1) (Finite False 2) (Finite False 1) (Finite False 1)) 2 4 (Finite False 1) (Finite False 0) 2 6)) 6 2 4 (Finite False 1) 2 8) 8 = Finite False 0
   \<and> ret (verify_solution (ieee_arith cr_pow) (mem (pk_formula (ieee_arith cr_pow) (example_store2 (Finite False 1) (Finite False 2) (Finite False 1) (Finite False 1)) 2 4 (Finite False 1) (Finite False 0) 2 6)) 6 2 4 (Finite False 1) 2 8) = 1
   \<and> (0::nat) < nat 2
   \<and> neg_fractional (pk_radicand (ieee_arith cr_pow) (example_store2 (Finite False 1) (Finite False 1) (Finite False 2) (Finite False 1)) 2 (Finite False 0) (Finite False 1) 2 0) (pk_recip (ieee_arith cr_pow) (example_store2 (Finite False 1) (Finite False 1) (Finite False 2) (Finite False 1)) 4 0)
   \<and> mem (verify_solution (ieee_arith cr_pow) (mem (pk_formula (ieee_arith cr_pow) (example_store2 (Finite False 1) (Finite False 1) (Finite False 2) (Finite False 1)) 2 4 (Finite False 0) (Finite False 1) 2 6)) 6 2 4 (Finite False 0) 2 8) 8 = NaN
   \<and> ret (verify_solution (ieee_arith cr_pow) (mem (pk_formula (ieee_arith cr_pow) (example_store2 (Finite False 1) (Finite False 1) (Finite False 2) (Finite False 1)) 2 4 (Finite False 0) (Finite False 1) 2 6)) 6 2 4 (Finite False 0) 2 8) = 0"
proof -
  have hyps: "(1::int) \<le> 2" "(2::nat) \<noteq> NULL" "(4::nat) \<noteq> NULL" "(6::nat) \<noteq> NULL"
    "(8::nat) \<noteq> NULL"
    "(6::nat) + nat 2 \<le> 2 \<or> (2::nat) + nat 2 \<le> 6"
    "(6::nat) + nat 2 \<le> 4 \<or> (4::nat) + nat 2 \<le> 6"
    by (simp_all add: NULL_def)
  have sA: "ieee_fabs (ieee_sub (round_trip_sum (ieee_arith cr_pow) (example_store2 (Finite False 1) (Finite False 2) (Finite False 1) (Finite False 1)) 2 4 (Finite False 1) (Finite False 0) 2)
              (Finite False 1)) = Finite False 0"
    by (simp add: ieee_arith_sel ieee_eval ieee_eval2)
  have nf: "neg_fractional (pk_radicand (ieee_arith cr_pow) (example_store2 (Finite False 1) (Finite False 1) (Finite False 2) (Finite False 1)) 2 (Finite False 0) (Finite False 1) 2 0)
              (pk_recip (ieee_arith cr_pow) (example_store2 (Finite False 1) (Finite False 1) (Finite False 2) (Finite False 1)) 4 0)"
    by (simp add: neg_fractional_def ieee_arith_sel ieee_eval ieee_eval2)
  have j: "(0::nat) < nat 2" by simp
  note A = round_trip_on_doubles [OF hyps, where lp = cr_pow and h = "(example_store2 (Finite False 1) (Finite False 2) (Finite False 1) (Finite False 1))"
      and b = "Finite False 1" and k = "Finite False 0"]
  note B = round_trip_on_doubles [OF hyps, where lp = cr_pow and h = "(example_store2 (Finite False 1) (Finite False 1) (Finite False 2) (Finite False 1))"
      and b = "Finite False 0" and k = "Finite False 1",
      THEN conjunct2, THEN conjunct2, rule_format, of 0]
  have "mem (verify_solution (ieee_arith cr_pow) (mem (pk_formula (ieee_arith cr_pow) (example_store2 (Finite False 1) (Finite False 2) (Finite False 1) (Finite False 1)) 2 4 (Finite False 1) (Finite False 0) 2 6)) 6 2 4 (Finite False 1) 2 8) 8 = Finite False 0"
    using A [THEN conjunct1] by (simp only: sA)
  moreover have "ret (verify_solution (ieee_arith cr_pow) (mem (pk_formula (ieee_arith cr_pow) (example_store2 (Finite False 1) (Finite False 2) (Finite False 1) (Finite False 1)) 2 4 (Finite False 1) (Finite False 0) 2 6)) 6 2 4 (Finite False 1) 2 8) = 1"
    using A [THEN conjunct2, THEN conjunct1] ieee_tol_positive by (simp only: sA if_True)
  moreover have "mem (verify_solution (ieee_arith cr_pow) (mem (pk_formula (ieee_arith cr_pow) (example_store2 (Finite False 1) (Finite False 1) (Finite False 2) (Finite False 1)) 2 4 (Finite False 0) (Finite False 1) 2 6)) 6 2 4 (Finite False 0) 2 8) 8 = NaN \<and> ret (verify_solution (ieee_arith cr_pow) (mem (pk_formula (ieee_arith cr_pow) (example_store2 (Finite False 1) (Finite False 1) (Finite False 2) (Finite False 1)) 2 4 (Finite False 0) (Finite False 1) 2 6)) 6 2 4 (Finite False 0) 2 8) = 0"
    using j nf by (intro B) simp
  ultimately show ?thesis using hyps j nf by simp
qed


section \<open>A single variable\<close>

text \<open>
  C4, as stated, fails on IEEE doubles for an infinite \<open>k\<close>: with \<open>n = 1\<close>,
  \<open>a = [1.0]\<close>, \<open>p = [1.0]\<close>, \<open>b = 1.0\<close> and \<open>k = +\<infinity>\<close> the product
  \<open>(n-1)*k = 0 * \<infinity>\<close> is NaN, and so is \<open>x[0]\<close>, while
  \<open>pow(b / a[0], 1/p[0]) = 1\<close>.
\<close>

theorem single_variable_counterexample:
  "mem (pk_formula (ieee_arith cr_pow) (example_store (Finite False 1) (Finite False 1)) 2 3
          (Finite False 1) (Infinite False) 1 4) 4 = NaN
   \<and> ieee_pow cr_pow
         (ieee_div (Finite False 1) (example_store (Finite False 1) (Finite False 1) 2))
         (ieee_div (ieee_lit 1) (example_store (Finite False 1) (Finite False 1) 3))
       = Finite False 1"
  by (simp add: pk_formula_one ieee_arith_sel ieee_eval)


text \<open>
  C4, amended.  On IEEE doubles, for \<open>n = 1\<close>, non-NULL pointers and every finite
  \<open>k\<close>, \<^verbatim>\<open>pk_formula\<close> returns \<open>0\<close> and its only write is
  \<open>x[0] = pow(b / a[0], 1/p[0])\<close>: the loop body never runs, and \<open>b - 0*k\<close> is
  \<open>b\<close>, unless \<open>b\<close> is \<open>-0\<close> and \<open>k\<close> is negative.  This holds for every
  library \<open>lp\<close>.
\<close>

theorem single_variable_finite_k:
  assumes "a \<noteq> NULL" and "p \<noteq> NULL" and "x \<noteq> NULL"
    and "is_double b" and "finite_d k" and "b \<noteq> Finite True 0 \<or> \<not> negative_d k"
  shows "pk_formula (ieee_arith lp) h a p b k 1 x =
           \<lparr>ret = 0,
            mem = h(x := ieee_pow lp (ieee_div b (h a)) (ieee_div (ieee_lit 1) (h p))),
            err_lines = []\<rparr>"
proof -
  obtain s m where k: "k = Finite s m"
    using assms(5) by (cases k) (simp_all add: finite_d_def)
  have "ieee_mul (ieee_of_int 0) k = Finite s 0"
    by (simp add: k ieee_of_int_0 rnd_zero)
  moreover have "ieee_sub b (Finite s 0) = b"
    using assms(4,6) by (intro ieee_sub_zero) (simp_all add: k negative_d_def)
  ultimately show ?thesis
    using assms(1-3) by (simp add: pk_formula_one ieee_arith_sel)
qed

theorem single_variable_finite_k_witness:
  "(2::nat) \<noteq> NULL \<and> (3::nat) \<noteq> NULL \<and> (4::nat) \<noteq> NULL
   \<and> is_double (Finite False 1) \<and> finite_d (Finite True 2)
   \<and> Finite False 1 \<noteq> Finite True 0
   \<and> pk_formula (ieee_arith cr_pow) (example_store (Finite False 1) (Finite False 1)) 2 3
         (Finite False 1) (Finite True 2) 1 4 =
       \<lparr>ret = 0,
        mem = (example_store (Finite False 1) (Finite False 1))(4 := Finite False 1),
        err_lines = []\<rparr>"
proof -
  have hyps: "(2::nat) \<noteq> NULL" "(3::nat) \<noteq> NULL" "(4::nat) \<noteq> NULL"
    by (simp_all add: NULL_def)
  have d: "is_double (Finite False 1)" by (simp add: is_double_def rnd_one)
  have f: "finite_d (Finite True 2)" by (simp add: finite_d_def)
  have z: "Finite False 1 \<noteq> Finite True 0 \<or> \<not> negative_d (Finite True 2)" by simp
  have v: "ieee_pow cr_pow
             (ieee_div (Finite False 1) (example_store (Finite False 1) (Finite False 1) 2))
             (ieee_div (ieee_lit 1) (example_store (Finite False 1) (Finite False 1) 3))
           = Finite False 1"
    by (simp add: ieee_eval)
  have "pk_formula (ieee_arith cr_pow) (example_store (Finite False 1) (Finite False 1)) 2 3
         (Finite False 1) (Finite True 2) 1 4 =
       \<lparr>ret = 0,
        mem = (example_store (Finite False 1) (Finite False 1))(4 := Finite False 1),
        err_lines = []\<rparr>"
    using single_variable_finite_k [OF hyps d f z, of cr_pow
        "example_store (Finite False 1) (Finite False 1)"]
    by (simp only: v)
  then show ?thesis using hyps d f by simp
qed

section \<open>Residual absorption\<close>

text \<open>
  C5, as stated, fails on IEEE doubles (\<open>n = 1\<close>, \<open>k = 0.0\<close>, no zero coefficient or
  exponent).  With \<open>a = [1.0]\<close>, \<open>p = [2.0]\<close>, \<open>b = -1.0\<close> the left-hand side
  \<open>a[0] * pow(x[0], p[0])\<close> is NaN and the right-hand side \<open>b - (n-1)*k\<close> is \<open>-1\<close>.
  With \<open>a = [1.0]\<close>, \<open>p = [2^-1074]\<close> (the smallest positive double), \<open>b = 0.5\<close> the
  radicand is positive, \<open>1/p[0]\<close> overflows, \<open>x[0] = pow(0.5, +\<infinity>) = +0\<close>, the
  left-hand side is \<open>+0\<close> and the right-hand side \<open>0.5\<close>.  Both results are those of
  Annex F, whatever the library.
\<close>

theorem residual_counterexample:
  "(ieee_mul ((example_store (Finite False 1) (Finite False 2)) 2)
     (ieee_pow cr_pow
        (mem (pk_formula (ieee_arith cr_pow) (example_store (Finite False 1) (Finite False 2)) 2 3
                (Finite True 1) (Finite False 0) 1 4) 4)
        ((example_store (Finite False 1) (Finite False 2)) 3))) = NaN
   \<and> (ieee_sub (Finite True 1) (ieee_mul (ieee_of_int (1 - 1)) (Finite False 0))) = Finite True 1
   \<and> is_double (Finite False (1 / 2 ^ 1074))
   \<and> (ieee_mul ((example_store (Finite False 1) (Finite False (1 / 2 ^ 1074))) 2)
     (ieee_pow cr_pow
        (mem (pk_formula (ieee_arith cr_pow) (example_store (Finite False 1) (Finite False (1 / 2 ^ 1074))) 2 3
                (Finite False (1 / 2)) (Finite False 0) 1 4) 4)
        ((example_store (Finite False 1) (Finite False (1 / 2 ^ 1074))) 3))) = Finite False 0
   \<and> (ieee_sub (Finite False (1 / 2)) (ieee_mul (ieee_of_int (1 - 1)) (Finite False 0))) = Finite False (1 / 2)"
  by (simp add: pk_formula_one ieee_arith_sel ieee_eval is_double_def rnd_eval)

text \<open>
  C5, amended.  On IEEE doubles, for \<open>n \<ge> 1\<close> and non-NULL pointers, \<open>x[0]\<close> is
  \<open>pow(r, 1/p[0])\<close> with \<open>r = (b - (n-1)*k) / a[0]\<close>, so \<open>a[0] * pow(x[0], p[0])\<close>
  is \<open>a[0] * pow(pow(r, 1/p[0]), p[0])\<close>.  That product is NaN, and so differs from
  \<open>b - (n-1)*k\<close>, when \<open>r\<close> is a negative finite number and \<open>1/p[0]\<close> is finite and
  not an integer; it is exactly \<open>b - (n-1)*k\<close> when \<open>b - (n-1)*k\<close> equals a finite
  non-zero \<open>a[0]\<close> (then \<open>r = 1\<close>).  This holds for every library \<open>lp\<close>.
\<close>

theorem residual_on_doubles:
  assumes "1 \<le> n" and "a \<noteq> NULL" and "p \<noteq> NULL" and "x \<noteq> NULL"
  shows "ieee_mul (h a) (ieee_pow lp (mem (pk_formula (ieee_arith lp) h a p b k n x) x) (h p)) =
           ieee_mul (h a)
             (ieee_pow lp
                (ieee_pow lp (pk_radicand (ieee_arith lp) h a b k n 0) (pk_recip (ieee_arith lp) h p 0))
                (h p))
       \<and> (neg_fractional (pk_radicand (ieee_arith lp) h a b k n 0) (pk_recip (ieee_arith lp) h p 0) \<longrightarrow>
             ieee_mul (h a) (ieee_pow lp (mem (pk_formula (ieee_arith lp) h a p b k n x) x) (h p)) = NaN
             \<and> ieee_sub b (ieee_mul (ieee_of_int (n - 1)) k) \<noteq> NaN)
       \<and> (is_double (h a) \<and> finite_d (h a) \<and> \<not> zero_d (h a)
            \<and> ieee_sub b (ieee_mul (ieee_of_int (n - 1)) k) = h a \<longrightarrow>
             ieee_mul (h a) (ieee_pow lp (mem (pk_formula (ieee_arith lp) h a p b k n x) x) (h p)) =
               ieee_sub b (ieee_mul (ieee_of_int (n - 1)) k))"
proof -
  let ?I = "ieee_arith lp"
  let ?r = "pk_radicand ?I h a b k n 0"
  let ?e = "pk_recip ?I h p 0"
  let ?t = "ieee_sub b (ieee_mul (ieee_of_int (n - 1)) k)"
  have r: "?r = ieee_div ?t (h a)" and e: "?e = ieee_div (ieee_lit 1) (h p)"
    by (simp_all add: pk_radicand_def pk_recip_def ieee_arith_sel)
  have x0: "mem (pk_formula ?I h a p b k n x) x = ieee_pow lp ?r ?e"
    using assms pk_formula_first [of n a p x ?I h b k] by (simp add: r e ieee_arith_sel)
  have c2: "ieee_mul (h a) (ieee_pow lp (ieee_pow lp ?r ?e) (h p)) = NaN \<and> ?t \<noteq> NaN"
    if nf: "neg_fractional ?r ?e"
  proof -
    obtain s m t q where rf: "?r = Finite s m" and ef: "?e = Finite t q" "\<not> is_int q"
      using nf by (auto simp: neg_fractional_def split: double.splits)
    obtain u v where d: "h p = Finite u v" "v \<noteq> 0"
      using ef ieee_recip_finite [of "h p" t q] by (auto simp: e)
    have "ieee_pow lp NaN (h p) = NaN" using d by (intro ieee_pow_nan_base) auto
    then have "ieee_mul (h a) (ieee_pow lp (ieee_pow lp ?r ?e) (h p)) = NaN"
      using nf by (simp add: ieee_pow_neg_fractional ieee_mul_nan)
    moreover have "?t \<noteq> NaN" using rf ieee_div_nan_free [of ?t "h a" s m] by (simp add: r)
    ultimately show ?thesis by simp
  qed
  have c3: "ieee_mul (h a) (ieee_pow lp (ieee_pow lp ?r ?e) (h p)) = ?t"
    if ex: "is_double (h a)" "finite_d (h a)" "\<not> zero_d (h a)" "?t = h a"
  proof -
    obtain s m where ha: "h a = Finite s m"
      using ex(2) by (cases "h a") (simp_all add: finite_d_def)
    have m: "m \<noteq> 0" "rnd s m = Finite s m"
      using ex(1,3) ha by (cases s; simp add: is_double_def zero_d_def)+
    have "?r = Finite False 1" using ex(4) ha m by (simp add: r rnd_one)
    then have "ieee_pow lp (ieee_pow lp ?r ?e) (h p) = Finite False 1"
      by (simp add: ieee_pow_def)
    then show ?thesis using ex(4) ha m by simp
  qed
  show ?thesis using c2 c3 by (simp add: x0)
qed


theorem residual_on_doubles_witness:
  "(1::int) \<le> 2 \<and> (2::nat) \<noteq> NULL \<and> (4::nat) \<noteq> NULL \<and> (6::nat) \<noteq> NULL
   \<and> is_double ((example_store2 (Finite False 2) (Finite False 1) (Finite False 2) (Finite False 1)) 2) \<and> finite_d ((example_store2 (Finite False 2) (Finite False 1) (Finite False 2) (Finite False 1)) 2) \<and> \<not> zero_d ((example_store2 (Finite False 2) (Finite False 1) (Finite False 2) (Finite False 1)) 2)
   \<and> ieee_sub (Finite False 3) (ieee_mul (ieee_of_int (2 - 1)) (Finite False 1)) = (example_store2 (Finite False 2) (Finite False 1) (Finite False 2) (Finite False 1)) 2
   \<and> (ieee_mul ((example_store2 (Finite False 2) (Finite False 1) (Finite False 2) (Finite False 1)) 2) (ieee_pow cr_pow (mem (pk_formula (ieee_arith cr_pow) (example_store2 (Finite False 2) (Finite False 1) (Finite False 2) (Finite False 1)) 2 4 (Finite False 3) (Finite False 1) 2 6) 6) ((example_store2 (Finite False 2) (Finite False 1) (Finite False 2) (Finite False 1)) 4))) = Finite False 2
   \<and> neg_fractional (pk_radicand (ieee_arith cr_pow) (example_store2 (Finite False 1) (Finite False 1) (Finite False 2) (Finite False 1)) 2 (Finite False 0) (Finite False 1) 2 0) (pk_recip (ieee_arith cr_pow) (example_store2 (Finite False 1) (Finite False 1) (Finite False 2) (Finite False 1)) 4 0)
   \<and> (ieee_mul ((example_store2 (Finite False 1) (Finite False 1) (Finite False 2) (Finite False 1)) 2) (ieee_pow cr_pow (mem (pk_formula (ieee_arith cr_pow) (example_store2 (Finite False 1) (Finite False 1) (Finite False 2) (Finite False 1)) 2 4 (Finite False 0) (Finite False 1) 2 6) 6) ((example_store2 (Finite False 1) (Finite False 1) (Finite False 2) (Finite False 1)) 4))) = NaN"
proof -
  have hyps: "(1::int) \<le> 2" "(2::nat) \<noteq> NULL" "(4::nat) \<noteq> NULL" "(6::nat) \<noteq> NULL"
    by (simp_all add: NULL_def)
  have ex: "is_double ((example_store2 (Finite False 2) (Finite False 1) (Finite False 2) (Finite False 1)) 2)" "finite_d ((example_store2 (Finite False 2) (Finite False 1) (Finite False 2) (Finite False 1)) 2)" "\<not> zero_d ((example_store2 (Finite False 2) (Finite False 1) (Finite False 2) (Finite False 1)) 2)"
    "ieee_sub (Finite False 3) (ieee_mul (ieee_of_int (2 - 1)) (Finite False 1)) = (example_store2 (Finite False 2) (Finite False 1) (Finite False 2) (Finite False 1)) 2"
    by (simp_all add: is_double_def finite_d_def zero_d_def ieee_eval ieee_eval2 rnd_eval)
  have nf: "neg_fractional (pk_radicand (ieee_arith cr_pow) (example_store2 (Finite False 1) (Finite False 1) (Finite False 2) (Finite False 1)) 2 (Finite False 0) (Finite False 1) 2 0)
              (pk_recip (ieee_arith cr_pow) (example_store2 (Finite False 1) (Finite False 1) (Finite False 2) (Finite False 1)) 4 0)"
    by (simp add: neg_fractional_def ieee_arith_sel ieee_eval ieee_eval2)
  note A = residual_on_doubles [OF hyps, where lp = cr_pow and h = "(example_store2 (Finite False 2) (Finite False 1) (Finite False 2) (Finite False 1))"
      and b = "Finite False 3" and k = "Finite False 1",
      THEN conjunct2, THEN conjunct2, rule_format]
  note B = residual_on_doubles [OF hyps, where lp = cr_pow and h = "(example_store2 (Finite False 1) (Finite False 1) (Finite False 2) (Finite False 1))"
      and b = "Finite False 0" and k = "Finite False 1",
      THEN conjunct2, THEN conjunct1, rule_format, THEN conjunct1]
  have "(ieee_mul ((example_store2 (Finite False 2) (Finite False 1) (Finite False 2) (Finite False 1)) 2) (ieee_pow cr_pow (mem (pk_formula (ieee_arith cr_pow) (example_store2 (Finite False 2) (Finite False 1) (Finite False 2) (Finite False 1)) 2 4 (Finite False 3) (Finite False 1) 2 6) 6) ((example_store2 (Finite False 2) (Finite False 1) (Finite False 2) (Finite False 1)) 4))) = ieee_sub (Finite False 3) (ieee_mul (ieee_of_int (2 - 1)) (Finite False 1))"
    using ex by (intro A) simp
  then have "(ieee_mul ((example_store2 (Finite False 2) (Finite False 1) (Finite False 2) (Finite False 1)) 2) (ieee_pow cr_pow (mem (pk_formula (ieee_arith cr_pow) (example_store2 (Finite False 2) (Finite False 1) (Finite False 2) (Finite False 1)) 2 4 (Finite False 3) (Finite False 1) 2 6) 6) ((example_store2 (Finite False 2) (Finite False 1) (Finite False 2) (Finite False 1)) 4))) = Finite False 2"
    by (simp only: ex(4)) (simp add: example_store2_def)
  moreover have "(ieee_mul ((example_store2 (Finite False 1) (Finite False 1) (Finite False 2) (Finite False 1)) 2) (ieee_pow cr_pow (mem (pk_formula (ieee_arith cr_pow) (example_store2 (Finite False 1) (Finite False 1) (Finite False 2) (Finite False 1)) 2 4 (Finite False 0) (Finite False 1) 2 6) 6) ((example_store2 (Finite False 1) (Finite False 1) (Finite False 2) (Finite False 1)) 4))) = NaN"
    using nf by (rule B)
  ultimately show ?thesis using hyps ex nf by simp
qed


section \<open>Failure on a non-positive size\<close>

text \<open>
  C6.  For every \<open>n \<le> 0\<close>, whatever the other arguments are, \<^verbatim>\<open>pk_formula\<close> returns
  \<open>-1\<close> and leaves the whole store as it was: no element of \<open>x\<close> is written.
\<close>

theorem pk_formula_invalid_size:
  assumes "n \<le> 0"
  shows "ret (pk_formula F h a p b k n x) = - 1
       \<and> mem (pk_formula F h a p b k n x) = h"
  using assms by (simp add: pk_formula_def)

theorem pk_formula_invalid_size_witness:
  "(0::int) \<le> 0
   \<and> ret (pk_formula (ieee_arith cr_pow) (\<lambda>c. Finite False 1) 2 4 (Finite False 1) (Finite False 0) 0 6) = - 1
   \<and> mem (pk_formula (ieee_arith cr_pow) (\<lambda>c. Finite False 1) 2 4 (Finite False 1) (Finite False 0) 0 6)
       = (\<lambda>c. Finite False 1)"
  using pk_formula_invalid_size [of 0 "ieee_arith cr_pow" "\<lambda>c. Finite False 1" 2 4
      "Finite False 1" "Finite False 0" 6]
  by simp

section \<open>Failure on an absent input\<close>

text \<open>
  C7.  \<^verbatim>\<open>pk_formula\<close> returns \<open>-1\<close> whenever \<open>a\<close>, \<open>p\<close> or \<open>x\<close> is NULL, and
  \<^verbatim>\<open>verify_solution\<close> returns \<open>0\<close> whenever \<open>x\<close>, \<open>a\<close>, \<open>p\<close> or \<open>error\<close> is
  NULL; in both cases the store is left as it was.
\<close>

theorem absent_input_fails:
  "(a = NULL \<or> p = NULL \<or> x = NULL \<longrightarrow>
      ret (pk_formula F h a p b k n x) = - 1 \<and> mem (pk_formula F h a p b k n x) = h)
   \<and> (x = NULL \<or> a = NULL \<or> p = NULL \<or> error = NULL \<longrightarrow>
      ret (verify_solution F h x a p b n error) = 0
      \<and> mem (verify_solution F h x a p b n error) = h)"
  by (simp add: pk_formula_def verify_solution_def)

theorem absent_input_fails_witness:
  "((2::nat) = NULL \<or> (0::nat) = NULL \<or> (6::nat) = NULL)
   \<and> ret (pk_formula (ieee_arith cr_pow) (\<lambda>c. Finite False 1) 2 0 (Finite False 1) (Finite False 0) 1 6) = - 1
   \<and> mem (pk_formula (ieee_arith cr_pow) (\<lambda>c. Finite False 1) 2 0 (Finite False 1) (Finite False 0) 1 6)
       = (\<lambda>c. Finite False 1)
   \<and> ((6::nat) = NULL \<or> (2::nat) = NULL \<or> (4::nat) = NULL \<or> (0::nat) = NULL)
   \<and> ret (verify_solution (ieee_arith cr_pow) (\<lambda>c. Finite False 1) 6 2 4 (Finite False 1) 1 0) = 0
   \<and> mem (verify_solution (ieee_arith cr_pow) (\<lambda>c. Finite False 1) 6 2 4 (Finite False 1) 1 0)
       = (\<lambda>c. Finite False 1)"
  using absent_input_fails [where a = 2 and p = 0 and x = 6 and F = "ieee_arith cr_pow"
      and h = "\<lambda>c. Finite False 1" and b = "Finite False 1" and k = "Finite False 0" and n = 1
      and error = 0]
    absent_input_fails [where a = 2 and p = 4 and x = 6 and F = "ieee_arith cr_pow"
      and h = "\<lambda>c. Finite False 1" and b = "Finite False 1" and k = "Finite False 0" and n = 1
      and error = 0]
  by (simp add: NULL_def)

section \<open>Numeric degeneracies\<close>

text \<open>
  C8, as stated, fails on IEEE doubles: a component computed from a zero coefficient
  or a zero exponent can be finite.  With \<open>a = [0.0]\<close>, \<open>p = [-1.0]\<close>, \<open>b = 1.0\<close>
  the solver returns \<open>0\<close> and \<open>x[0] = pow(+\<infinity>, -1.0) = +0\<close>; with \<open>a = [2.0]\<close>,
  \<open>p = [0.0]\<close>, \<open>b = 1.0\<close> it returns \<open>0\<close> and \<open>x[0] = pow(0.5, +\<infinity>) = +0\<close>.
\<close>

theorem degenerate_counterexample:
  "ret (pk_formula (ieee_arith cr_pow) (example_store (Finite False 0) (Finite True 1)) 2 3
          (Finite False 1) (Finite False 0) 1 4) = 0
   \<and> mem (pk_formula (ieee_arith cr_pow) (example_store (Finite False 0) (Finite True 1)) 2 3
          (Finite False 1) (Finite False 0) 1 4) 4 = Finite False 0
   \<and> ret (pk_formula (ieee_arith cr_pow) (example_store (Finite False 2) (Finite False 0)) 2 3
          (Finite False 1) (Finite False 0) 1 4) = 0
   \<and> mem (pk_formula (ieee_arith cr_pow) (example_store (Finite False 2) (Finite False 0)) 2 3
          (Finite False 1) (Finite False 0) 1 4) 4 = Finite False 0"
  by (simp add: pk_formula_one ieee_arith_sel ieee_eval)



text \<open>
  C8, amended.  On IEEE doubles, for \<open>n \<ge> 1\<close> and non-NULL pointers (\<open>x\<close> not
  beginning strictly inside \<open>a\<close> or \<open>p\<close>), \<^verbatim>\<open>pk_formula\<close> returns \<open>0\<close> whatever
  the values of \<open>a\<close> and \<open>p\<close> are, and every \<open>x[i]\<close> is what \<^verbatim>\<open>pow\<close> returns on
  the radicand and the exponent \<open>1/p[i]\<close>.  A zero \<open>a[i]\<close> makes the radicand an
  infinity or a NaN, a zero \<open>p[i]\<close> makes the exponent an infinity, and in both cases
  \<open>x[i]\<close> is a NaN, an infinity, a zero or \<open>1\<close>.  A negative finite radicand with a
  finite exponent \<open>1/p[i]\<close> that is not an integer makes \<open>x[i]\<close> a NaN.  When the sum
  recomputed by \<^verbatim>\<open>verify_solution\<close> is NaN, \<open>*error\<close> is NaN and the returned flag
  is \<open>0\<close>.  This holds for every library \<open>lp\<close>.
\<close>

theorem degenerate_values_not_errors:
  assumes "1 \<le> n" and "a \<noteq> NULL" and "p \<noteq> NULL" and "x \<noteq> NULL" and "error \<noteq> NULL"
    and "x \<le> a \<or> a + nat n \<le> x" and "x \<le> p \<or> p + nat n \<le> x"
  shows "ret (pk_formula (ieee_arith lp) h a p b k n x) = 0
       \<and> (\<forall>j. j < nat n \<longrightarrow>
             mem (pk_formula (ieee_arith lp) h a p b k n x) (x + j) =
               ieee_pow lp (pk_radicand (ieee_arith lp) h a b k n j) (pk_recip (ieee_arith lp) h p j))
       \<and> (\<forall>j. j < nat n \<and> zero_d (h (a + j)) \<longrightarrow>
             \<not> finite_d (pk_radicand (ieee_arith lp) h a b k n j)
             \<and> special_d (mem (pk_formula (ieee_arith lp) h a p b k n x) (x + j)))
       \<and> (\<forall>j. j < nat n \<and> zero_d (h (p + j)) \<longrightarrow>
             pk_recip (ieee_arith lp) h p j = Infinite (negative_d (h (p + j)))
             \<and> special_d (mem (pk_formula (ieee_arith lp) h a p b k n x) (x + j)))
       \<and> (\<forall>j. j < nat n
              \<and> neg_fractional (pk_radicand (ieee_arith lp) h a b k n j)
                               (pk_recip (ieee_arith lp) h p j) \<longrightarrow>
             mem (pk_formula (ieee_arith lp) h a p b k n x) (x + j) = NaN)
       \<and> (constraint_sum (ieee_arith lp) g x a p n = NaN \<longrightarrow>
             ret (verify_solution (ieee_arith lp) g x a p c n error) = 0
             \<and> mem (verify_solution (ieee_arith lp) g x a p c n error) error = NaN)"
proof -
  let ?I = "ieee_arith lp"
  let ?R = "pk_formula ?I h a p b k n x"
  have c1: "ret ?R = 0"
    using assms(1-4) by (simp add: pk_formula_success)
  have c2: "mem ?R (x + j) = ieee_pow lp (pk_radicand ?I h a b k n j) (pk_recip ?I h p j)"
    if "j < nat n" for j
    using pk_formula_component [OF assms(1-4,6,7) that, of ?I h b k]
    by (simp add: pk_closed_def ieee_arith_sel)
  have c3: "\<not> finite_d (pk_radicand ?I h a b k n j) \<and> special_d (mem ?R (x + j))"
    if "j < nat n" "zero_d (h (a + j))" for j
  proof -
    have "\<not> finite_d (pk_radicand ?I h a b k n j)"
      using that(2) ieee_div_by_zero [of "h (a + j)"]
      by (cases "j = 0") (simp_all add: pk_radicand_def ieee_arith_sel)
    then show ?thesis using c2 [OF that(1)] by (simp add: ieee_pow_nonfinite_base)
  qed
  have c4: "pk_recip ?I h p j = Infinite (negative_d (h (p + j))) \<and> special_d (mem ?R (x + j))"
    if "j < nat n" "zero_d (h (p + j))" for j
  proof -
    have "pk_recip ?I h p j = Infinite (negative_d (h (p + j)))"
      using that(2) by (simp add: pk_recip_def ieee_arith_sel ieee_one_over_zero)
    then show ?thesis using c2 [OF that(1)] by (simp add: ieee_pow_infinite_expo)
  qed
  have c5: "mem ?R (x + j) = NaN"
    if "j < nat n" "neg_fractional (pk_radicand ?I h a b k n j) (pk_recip ?I h p j)" for j
    using that c2 [OF that(1)] by (simp add: ieee_pow_neg_fractional)
  have c6: "ret (verify_solution ?I g x a p c n error) = 0
      \<and> mem (verify_solution ?I g x a p c n error) error = NaN"
    if "constraint_sum ?I g x a p n = NaN"
    using assms(2-5) that by (simp add: verify_solution_result ieee_arith_sel ieee_sub_def)
  from c1 c2 c3 c4 c5 c6 show ?thesis by blast
qed

theorem degenerate_values_not_errors_witness:
  "(1::int) \<le> 2 \<and> (2::nat) \<noteq> NULL \<and> (4::nat) \<noteq> NULL \<and> (6::nat) \<noteq> NULL \<and> (8::nat) \<noteq> NULL
   \<and> ((6::nat) \<le> 2 \<or> 2 + nat 2 \<le> (6::nat)) \<and> ((6::nat) \<le> 4 \<or> 4 + nat 2 \<le> (6::nat))
   \<and> ret (pk_formula (ieee_arith cr_pow) (example_store2 (Finite False 1) (Finite False 0) (Finite False 2) (Finite True 1)) 2 4 (Finite False 0) (Finite False 1) 2 6) = 0
   \<and> neg_fractional (pk_radicand (ieee_arith cr_pow) (example_store2 (Finite False 1) (Finite False 0) (Finite False 2) (Finite True 1)) 2 (Finite False 0) (Finite False 1) 2 0) (pk_recip (ieee_arith cr_pow) (example_store2 (Finite False 1) (Finite False 0) (Finite False 2) (Finite True 1)) 4 0)
   \<and> mem (pk_formula (ieee_arith cr_pow) (example_store2 (Finite False 1) (Finite False 0) (Finite False 2) (Finite True 1)) 2 4 (Finite False 0) (Finite False 1) 2 6) (6 + 0) = NaN
   \<and> zero_d ((example_store2 (Finite False 1) (Finite False 0) (Finite False 2) (Finite True 1)) (2 + 1))
   \<and> \<not> finite_d (pk_radicand (ieee_arith cr_pow) (example_store2 (Finite False 1) (Finite False 0) (Finite False 2) (Finite True 1)) 2 (Finite False 0) (Finite False 1) 2 1)
   \<and> mem (pk_formula (ieee_arith cr_pow) (example_store2 (Finite False 1) (Finite False 0) (Finite False 2) (Finite True 1)) 2 4 (Finite False 0) (Finite False 1) 2 6) (6 + 1) = Finite False 0
   \<and> special_d (mem (pk_formula (ieee_arith cr_pow) (example_store2 (Finite False 1) (Finite False 0) (Finite False 2) (Finite True 1)) 2 4 (Finite False 0) (Finite False 1) 2 6) (6 + 1))
   \<and> zero_d ((example_store2 (Finite False 2) (Finite False 1) (Finite False 0) (Finite False 1)) (4 + 0))
   \<and> pk_recip (ieee_arith cr_pow) (example_store2 (Finite False 2) (Finite False 1) (Finite False 0) (Finite False 1)) 4 0 = Infinite False
   \<and> mem (pk_formula (ieee_arith cr_pow) (example_store2 (Finite False 2) (Finite False 1) (Finite False 0) (Finite False 1)) 2 4 (Finite False 2) (Finite False 1) 2 6) (6 + 0) = Finite False 0
   \<and> special_d (mem (pk_formula (ieee_arith cr_pow) (example_store2 (Finite False 2) (Finite False 1) (Finite False 0) (Finite False 1)) 2 4 (Finite False 2) (Finite False 1) 2 6) (6 + 0))
   \<and> constraint_sum (ieee_arith cr_pow) ((example_store2 (Finite False 1) (Finite False 1) (Finite False 2) (Finite False 1))(6 := NaN)) 6 2 4 2 = NaN
   \<and> ret (verify_solution (ieee_arith cr_pow) ((example_store2 (Finite False 1) (Finite False 1) (Finite False 2) (Finite False 1))(6 := NaN)) 6 2 4 (Finite False 1) 2 8) = 0
   \<and> mem (verify_solution (ieee_arith cr_pow) ((example_store2 (Finite False 1) (Finite False 1) (Finite False 2) (Finite False 1))(6 := NaN)) 6 2 4 (Finite False 1) 2 8) 8 = NaN"
proof -
  have hyps: "(1::int) \<le> 2" "(2::nat) \<noteq> NULL" "(4::nat) \<noteq> NULL" "(6::nat) \<noteq> NULL"
    "(8::nat) \<noteq> NULL"
    "(6::nat) \<le> 2 \<or> 2 + nat 2 \<le> (6::nat)" "(6::nat) \<le> 4 \<or> 4 + nat 2 \<le> (6::nat)"
    by (simp_all add: NULL_def)
  have j0: "(0::nat) < nat 2" and j1: "(1::nat) < nat 2" by simp_all
  have nf: "neg_fractional (pk_radicand (ieee_arith cr_pow) (example_store2 (Finite False 1) (Finite False 0) (Finite False 2) (Finite True 1)) 2 (Finite False 0) (Finite False 1) 2 0)
              (pk_recip (ieee_arith cr_pow) (example_store2 (Finite False 1) (Finite False 0) (Finite False 2) (Finite True 1)) 4 0)"
    by (simp add: neg_fractional_def ieee_arith_sel ieee_eval ieee_eval2)
  have za: "zero_d ((example_store2 (Finite False 1) (Finite False 0) (Finite False 2) (Finite True 1)) (2 + 1))" and zp: "zero_d ((example_store2 (Finite False 2) (Finite False 1) (Finite False 0) (Finite False 1)) (4 + 0))"
    by (simp_all add: zero_d_def example_store2_def)
  have cs: "constraint_sum (ieee_arith cr_pow) ((example_store2 (Finite False 1) (Finite False 1) (Finite False 2) (Finite False 1))(6 := NaN)) 6 2 4 2 = NaN"
    by (simp add: ieee_arith_sel ieee_eval ieee_eval2)
  note D = degenerate_values_not_errors [OF hyps, where lp = cr_pow and h = "(example_store2 (Finite False 1) (Finite False 0) (Finite False 2) (Finite True 1))"
      and b = "Finite False 0" and k = "Finite False 1" and g = "((example_store2 (Finite False 1) (Finite False 1) (Finite False 2) (Finite False 1))(6 := NaN))" and c = "Finite False 1"]
  note E = degenerate_values_not_errors [OF hyps, where lp = cr_pow and h = "(example_store2 (Finite False 2) (Finite False 1) (Finite False 0) (Finite False 1))"
      and b = "Finite False 2" and k = "Finite False 1" and g = "((example_store2 (Finite False 1) (Finite False 1) (Finite False 2) (Finite False 1))(6 := NaN))" and c = "Finite False 1"]
  note D1 = D [THEN conjunct1]
  note D2 = D [THEN conjunct2, THEN conjunct1, rule_format, OF j1]
  note D3 = D [THEN conjunct2, THEN conjunct2, THEN conjunct1, rule_format, OF conjI, OF j1 za]
  note D5 = D [THEN conjunct2, THEN conjunct2, THEN conjunct2, THEN conjunct2, THEN conjunct1,
      rule_format, OF conjI, OF j0 nf]
  note D6 = D [THEN conjunct2, THEN conjunct2, THEN conjunct2, THEN conjunct2, THEN conjunct2,
      rule_format, OF cs]
  note E2 = E [THEN conjunct2, THEN conjunct1, rule_format, OF j0]
  note E4 = E [THEN conjunct2, THEN conjunct2, THEN conjunct2, THEN conjunct1, rule_format,
      OF conjI, OF j0 zp]
  have d7: "mem (pk_formula (ieee_arith cr_pow) (example_store2 (Finite False 1) (Finite False 0) (Finite False 2) (Finite True 1)) 2 4 (Finite False 0) (Finite False 1) 2 6) (6 + 1) = Finite False 0"
    using D2 by (simp add: ieee_arith_sel ieee_eval ieee_eval2)
  have e6: "mem (pk_formula (ieee_arith cr_pow) (example_store2 (Finite False 2) (Finite False 1) (Finite False 0) (Finite False 1)) 2 4 (Finite False 2) (Finite False 1) 2 6) (6 + 0) = Finite False 0"
    using E2 by (simp add: ieee_arith_sel ieee_eval ieee_eval2)
  have e4: "pk_recip (ieee_arith cr_pow) (example_store2 (Finite False 2) (Finite False 1) (Finite False 0) (Finite False 1)) 4 0 = Infinite False"
    using E4 [THEN conjunct1] by (simp add: negative_d_def example_store2_def)
  show ?thesis
    using hyps D1 nf D5 za D3 d7 zp e4 e6 E4 [THEN conjunct2] cs D6
    by (intro conjI) simp_all
qed

section \<open>The verifier on an empty problem\<close>

text \<open>
  C9.  \<^verbatim>\<open>verify_solution\<close> does not check \<open>n\<close>.  On IEEE doubles, for every
  \<open>n \<le> 0\<close> and non-NULL pointers, the loop runs zero times, the only write is
  \<open>*error = |b|\<close>, and the return is \<open>1\<close> exactly when \<open>|b| < 1e-10\<close>; with
  \<open>b = 0.0\<close> and \<open>n = 0\<close> it returns \<open>1\<close>.
\<close>

theorem verify_solution_empty:
  assumes "n \<le> 0" and "x \<noteq> NULL" and "a \<noteq> NULL" and "p \<noteq> NULL" and "error \<noteq> NULL"
    and "is_double b"
  shows "mem (verify_solution (ieee_arith lp) h x a p b n error) = h(error := ieee_fabs b)
       \<and> ret (verify_solution (ieee_arith lp) h x a p b n error) =
           (if ieee_lt (ieee_fabs b) (ieee_lit (1 / 10 ^ 10)) then 1 else 0)
       \<and> ret (verify_solution (ieee_arith lp) h x a p (ieee_lit 0) 0 error) = 1"
proof -
  have e: "ieee_fabs (ieee_sub (ieee_lit 0) b) = ieee_fabs b"
    using assms(6) by (simp add: ieee_lit_0 ieee_fabs_zero_sub)
  have z: "ieee_fabs (ieee_sub (ieee_lit 0) (ieee_lit 0)) = Finite False 0"
    by (simp add: ieee_lit_0 ieee_sub_def val_def)
  show ?thesis
    using assms(1-5) e z ieee_tol_positive
    by (simp add: verify_solution_result constraint_sum_empty ieee_arith_sel)
qed

theorem verify_solution_empty_witness:
  "(0::int) \<le> 0 \<and> (4::nat) \<noteq> NULL \<and> (2::nat) \<noteq> NULL \<and> (3::nat) \<noteq> NULL \<and> (5::nat) \<noteq> NULL
   \<and> is_double (Finite True 1)
   \<and> mem (verify_solution (ieee_arith cr_pow) (\<lambda>c. NaN) 4 2 3 (Finite True 1) 0 5) =
       (\<lambda>c. NaN)(5 := Finite False 1)
   \<and> ret (verify_solution (ieee_arith cr_pow) (\<lambda>c. NaN) 4 2 3 (Finite True 1) 0 5) = 0
   \<and> ret (verify_solution (ieee_arith cr_pow) (\<lambda>c. NaN) 4 2 3 (ieee_lit 0) 0 5) = 1"
proof -
  have hyps: "(0::int) \<le> 0" "(4::nat) \<noteq> NULL" "(2::nat) \<noteq> NULL" "(3::nat) \<noteq> NULL"
    "(5::nat) \<noteq> NULL"
    by (simp_all add: NULL_def)
  have d: "is_double (Finite True 1)" by (simp add: is_double_def rnd_one)
  show ?thesis
    using hyps d ieee_tol_below_one verify_solution_empty [OF hyps d, of cr_pow "\<lambda>c. NaN"]
    by simp
qed


section \<open>The verifier's failure value\<close>

text \<open>
  C10.  When \<open>x\<close>, \<open>a\<close>, \<open>p\<close> or \<open>error\<close> is NULL, \<^verbatim>\<open>verify_solution\<close> returns
  \<open>0\<close> and leaves the store, the error location included, unwritten; \<open>0\<close> is also
  what it returns for non-NULL inputs whose error is not below the tolerance.
\<close>

theorem verify_null_like_invalid:
  "(x = NULL \<or> a = NULL \<or> p = NULL \<or> error = NULL \<longrightarrow>
      ret (verify_solution F h x a p b n error) = 0
      \<and> mem (verify_solution F h x a p b n error) = h)
   \<and> (x \<noteq> NULL \<and> a \<noteq> NULL \<and> p \<noteq> NULL \<and> error \<noteq> NULL
        \<and> \<not> lt_d F (fabs_d F (sub_d F (constraint_sum F h x a p n) b)) (lit F (1 / 10 ^ 10)) \<longrightarrow>
      ret (verify_solution F h x a p b n error) = 0)"
  by (simp add: verify_solution_result) (simp add: verify_solution_def)

theorem verify_null_like_invalid_witness:
  "((0::nat) = NULL \<or> (2::nat) = NULL \<or> (4::nat) = NULL \<or> (8::nat) = NULL)
   \<and> ret (verify_solution (ieee_arith cr_pow) (\<lambda>c. Finite False 1) 0 2 4 (Finite False 1) 1 8) = 0
   \<and> mem (verify_solution (ieee_arith cr_pow) (\<lambda>c. Finite False 1) 0 2 4 (Finite False 1) 1 8)
       = (\<lambda>c. Finite False 1)
   \<and> (6::nat) \<noteq> NULL \<and> (2::nat) \<noteq> NULL \<and> (4::nat) \<noteq> NULL \<and> (8::nat) \<noteq> NULL
   \<and> \<not> lt_d (ieee_arith cr_pow)
         (fabs_d (ieee_arith cr_pow)
            (sub_d (ieee_arith cr_pow)
               (constraint_sum (ieee_arith cr_pow) (\<lambda>c. Finite False 1) 6 2 4 1) (Finite False 2)))
         (lit (ieee_arith cr_pow) (1 / 10 ^ 10))
   \<and> ret (verify_solution (ieee_arith cr_pow) (\<lambda>c. Finite False 1) 6 2 4 (Finite False 2) 1 8) = 0"
proof -
  let ?I = "ieee_arith cr_pow"
  let ?g = "\<lambda>c::nat. Finite False 1"
  have nn: "(6::nat) \<noteq> NULL" "(2::nat) \<noteq> NULL" "(4::nat) \<noteq> NULL" "(8::nat) \<noteq> NULL"
    by (simp_all add: NULL_def)
  have s: "constraint_sum ?I ?g 6 2 4 1 = Finite False 1"
    by (simp add: constraint_sum_one ieee_arith_sel ieee_eval)
  have e: "ieee_fabs (ieee_sub (Finite False 1) (Finite False 2)) = Finite False 1"
    by (simp add: ieee_eval)
  have far: "\<not> lt_d ?I (fabs_d ?I (sub_d ?I (constraint_sum ?I ?g 6 2 4 1) (Finite False 2)))
                 (lit ?I (1 / 10 ^ 10))"
    using ieee_tol_below_one by (simp add: s e ieee_arith_sel)
  note A = verify_null_like_invalid [where x = 0 and a = 2 and p = 4 and error = 8
        and F = ?I and h = ?g and b = "Finite False 1" and n = 1, THEN conjunct1, rule_format]
  note B = verify_null_like_invalid [where x = 6 and a = 2 and p = 4 and error = 8
        and F = ?I and h = ?g and b = "Finite False 2" and n = 1, THEN conjunct2, rule_format]
  have "ret (verify_solution ?I ?g 0 2 4 (Finite False 1) 1 8) = 0
        \<and> mem (verify_solution ?I ?g 0 2 4 (Finite False 1) 1 8) = ?g"
    by (rule A) (simp add: NULL_def)
  moreover have "ret (verify_solution ?I ?g 6 2 4 (Finite False 2) 1 8) = 0"
    using nn far by (intro B) simp
  ultimately show ?thesis using nn far by (simp add: NULL_def)
qed



end
